theory Spec2Isabelle
  imports Main "HOL-Library.Word"
begin

section \<open>Security group manager: data model\<close>

text \<open>
  Shallow embedding of \<^verbatim>\<open>pkg/deploy/ec2/security_group_manager.go\<close>.  Go structs are
  records, Go maps with string keys are association lists, a \<^verbatim>\<open>*int64\<close> port is an
  optional 64-bit word, and a Go \<^verbatim>\<open>error\<close> return is an \<open>error option\<close> or the left
  side of a sum.  The logger calls of the source have no effect on any result and are
  left out.
\<close>

type_synonym tags = "(string \<times> string) list"
type_synonym labels = "(string \<times> string) list"
type_synonym port = "64 word option"

text \<open>
  The error values that can travel through the manager: \<^verbatim>\<open>errors.New(msg)\<close>, an
  \<^verbatim>\<open>awserr.Error\<close> with its code and message, any other error of a collaborator,
  \<^verbatim>\<open>wait.ErrWaitTimeout\<close> of the polling utility, and the panic of
  \<^verbatim>\<open>time.NewTicker\<close> on a non-positive interval.
\<close>

datatype error =
    ErrorsNew string
  | AwsError string string
  | OtherError string
  | ErrWaitTimeout
  | TickerPanic

subsection \<open>The desired model (package ec2model)\<close>

record IPRange =
  CIDRIP :: string
  Description :: string

record IPv6Range =
  CIDRIPv6 :: string
  Description :: string

record UserIDGroupPair =
  GroupID :: string
  Description :: string

record IPPermission =
  IPProtocol :: string
  FromPort :: port
  ToPort :: port
  IPRanges :: "IPRange list"
  IPv6Range :: "IPv6Range list"
  UserIDGroupPairs :: "UserIDGroupPair list"

record SecurityGroupSpec =
  GroupName :: string
  Description :: string
  Tags :: tags
  Ingress :: "IPPermission list"

record SecurityGroup =
  Stack :: string
  ID :: string
  Spec :: SecurityGroupSpec

record SecurityGroupStatus =
  GroupID :: string

subsection \<open>The normalized permission (package networking)\<close>

text \<open>
  Modelled from the spec: the type \<^verbatim>\<open>networking.IPPermissionInfo\<close> and its three
  constructors are declared outside the file.  The spec describes the normalized
  permission as protocol, port range, target kind with its value, and derived labels; each
  constructor stores its arguments under the target kind it is named after.
\<close>

datatype target = CIDR string | CIDRv6 string | PeerGroup string

record IPPermissionInfo =
  ipProtocol :: string
  fromPort :: port
  toPort :: port
  permTarget :: target
  Labels :: labels

definition NewCIDRIPPermission :: "string \<Rightarrow> port \<Rightarrow> port \<Rightarrow> string \<Rightarrow> labels \<Rightarrow> IPPermissionInfo" where
  "NewCIDRIPPermission protocol fromP toP cidr lbls =
     \<lparr>ipProtocol = protocol, fromPort = fromP, toPort = toP, permTarget = CIDR cidr, Labels = lbls\<rparr>"

definition NewCIDRv6IPPermission :: "string \<Rightarrow> port \<Rightarrow> port \<Rightarrow> string \<Rightarrow> labels \<Rightarrow> IPPermissionInfo" where
  "NewCIDRv6IPPermission protocol fromP toP cidrv6 lbls =
     \<lparr>ipProtocol = protocol, fromPort = fromP, toPort = toP, permTarget = CIDRv6 cidrv6, Labels = lbls\<rparr>"

definition NewGroupIDIPPermission :: "string \<Rightarrow> port \<Rightarrow> port \<Rightarrow> string \<Rightarrow> labels \<Rightarrow> IPPermissionInfo" where
  "NewGroupIDIPPermission protocol fromP toP groupID lbls =
     \<lparr>ipProtocol = protocol, fromPort = fromP, toPort = toP, permTarget = PeerGroup groupID, Labels = lbls\<rparr>"

text \<open>
  Two package-level helpers are called by the file and declared elsewhere:
  \<^verbatim>\<open>networking.NewIPPermissionLabelsForRawDescription\<close> (labels of a description) and
  \<^verbatim>\<open>convertTagsToSDKTags\<close>.  Both are pure; they are parameters of the model.
\<close>

record Tag =
  Key :: string
  Value :: string

record helpers =
  NewIPPermissionLabelsForRawDescription :: "string \<Rightarrow> labels"
  convertTagsToSDKTags :: "tags \<Rightarrow> Tag list"

section \<open>Translation of ingress rules\<close>

text \<open>
  \<^verbatim>\<open>buildIPPermissionInfo\<close>: three tests in order, each on the length of one list being
  exactly 1; the first that holds decides the result, and the other lists are not looked
  at.  When none holds the result is \<^verbatim>\<open>errors.New("invalid ipPermission")\<close>.
\<close>

definition buildIPPermissionInfo :: "helpers \<Rightarrow> IPPermission \<Rightarrow> error + IPPermissionInfo" where
  "buildIPPermissionInfo h permission =
     (let protocol = IPProtocol permission in
      if length (IPRanges permission) = 1 then
        (let lbls = NewIPPermissionLabelsForRawDescription h (IPRange.Description (IPRanges permission ! 0))
         in Inr (NewCIDRIPPermission protocol (FromPort permission) (ToPort permission)
                   (CIDRIP (IPRanges permission ! 0)) lbls))
      else if length (IPv6Range permission) = 1 then
        (let lbls = NewIPPermissionLabelsForRawDescription h (IPv6Range.Description (IPv6Range permission ! 0))
         in Inr (NewCIDRv6IPPermission protocol (FromPort permission) (ToPort permission)
                   (CIDRIPv6 (IPv6Range permission ! 0)) lbls))
      else if length (UserIDGroupPairs permission) = 1 then
        (let lbls = NewIPPermissionLabelsForRawDescription h
                      (UserIDGroupPair.Description (UserIDGroupPairs permission ! 0))
         in Inr (NewGroupIDIPPermission protocol (FromPort permission) (ToPort permission)
                   (UserIDGroupPair.GroupID (UserIDGroupPairs permission ! 0)) lbls))
      else Inl (ErrorsNew ''invalid ipPermission''))"

text \<open>
  \<^verbatim>\<open>buildIPPermissionInfos\<close>: the loop over the rules with its accumulator; the first
  error returns \<^verbatim>\<open>nil, err\<close>.
\<close>

fun buildIPPermissionInfos_loop ::
  "helpers \<Rightarrow> IPPermission list \<Rightarrow> IPPermissionInfo list \<Rightarrow> error + IPPermissionInfo list" where
  "buildIPPermissionInfos_loop h [] permissionInfos = Inr permissionInfos"
| "buildIPPermissionInfos_loop h (permission # rest) permissionInfos =
     (case buildIPPermissionInfo h permission of
        Inl err \<Rightarrow> Inl err
      | Inr permissionInfo \<Rightarrow> buildIPPermissionInfos_loop h rest (permissionInfos @ [permissionInfo]))"

definition buildIPPermissionInfos :: "helpers \<Rightarrow> IPPermission list \<Rightarrow> error + IPPermissionInfo list" where
  "buildIPPermissionInfos h permissions = buildIPPermissionInfos_loop h permissions []"

section \<open>Collaborators and the manager\<close>

subsection \<open>Requests, responses and the record of calls\<close>

record TagSpecification =
  ResourceType :: string
  Tags :: "Tag list"

record CreateSecurityGroupInput =
  VpcId :: string
  GroupName :: string
  Description :: string
  TagSpecifications :: "TagSpecification list"

record CreateSecurityGroupOutput =
  GroupId :: "string option"

record DeleteSecurityGroupInput =
  GroupId :: string

record SecurityGroupInfo =
  SecurityGroupID :: string
  Tags :: tags

text \<open>The functional options the file passes to \<^verbatim>\<open>ReconcileTags\<close>.\<close>

datatype ReconcileTagsOption = WithCurrentTags tags | WithIgnoredTagKeys "string list"

text \<open>
  A context is either never done (\<open>None\<close>) or becomes done at a known instant with the
  error \<^verbatim>\<open>ctx.Err()\<close> then reports.  Instants and durations are integers
  (\<^verbatim>\<open>time.Duration\<close> counts nanoseconds); instant 0 is the entry of the operation.
\<close>

datatype ctxErr = Canceled | DeadlineExceeded

record doneCtx =
  doneAt :: int
  ctxError :: ctxErr

type_synonym "context" = "doneCtx option"

text \<open>
  \<^verbatim>\<open>context.WithTimeout(ctx, d)\<close> at instant 0: the derived context is done when the
  parent is, or at \<open>d\<close>, whichever comes first.
\<close>

definition WithTimeout :: "context \<Rightarrow> int \<Rightarrow> doneCtx" where
  "WithTimeout ctx d =
     (case ctx of
        None \<Rightarrow> \<lparr>doneAt = d, ctxError = DeadlineExceeded\<rparr>
      | Some parent \<Rightarrow> if doneAt parent \<le> d then parent else \<lparr>doneAt = d, ctxError = DeadlineExceeded\<rparr>)"

text \<open>\<^verbatim>\<open>ctx.Err()\<close> at an instant.\<close>

definition Err :: "doneCtx \<Rightarrow> int \<Rightarrow> ctxErr option" where
  "Err ctx now = (if doneAt ctx \<le> now then Some (ctxError ctx) else None)"

text \<open>
  Every call the manager makes on a collaborator with an effect is recorded, in order.
  A delete-call carries the instant at which it is made.
\<close>

datatype event =
    CreateSecurityGroupCall CreateSecurityGroupInput
  | DeleteSecurityGroupCall int DeleteSecurityGroupInput
  | ReconcileIngressCall string "IPPermissionInfo list"
  | ReconcileTagsCall string tags "ReconcileTagsOption list"

text \<open>
  The collaborators are interfaces injected at construction; the model takes them as
  functions.  Each one that has an effect answers from the calls made so far in the
  operation and from its arguments, which covers every deterministic remote system.
  \<^verbatim>\<open>Create\<close> and \<^verbatim>\<open>Update\<close> hand their context on unchanged, so there it is part
  of the function that stands for the collaborator.  \<^verbatim>\<open>Delete\<close> derives a context of
  its own: its delete-call is told the current instant and what the derived context shows
  at that instant (\<^verbatim>\<open>ctx.Err()\<close>: nil while the context is not done).
\<close>

record EC2 =
  CreateSecurityGroupWithContext ::
    "event list \<Rightarrow> CreateSecurityGroupInput \<Rightarrow> error + CreateSecurityGroupOutput"
  DeleteSecurityGroupWithContext ::
    "event list \<Rightarrow> int \<Rightarrow> ctxErr option \<Rightarrow> DeleteSecurityGroupInput \<Rightarrow> error option"

record Provider =
  ResourceTags :: "string \<Rightarrow> SecurityGroup \<Rightarrow> tags \<Rightarrow> tags"
  LegacyTagKeys :: "string list"

record TaggingManager =
  ReconcileTags :: "event list \<Rightarrow> string \<Rightarrow> tags \<Rightarrow> ReconcileTagsOption list \<Rightarrow> error option"

record SecurityGroupReconciler =
  ReconcileIngress :: "event list \<Rightarrow> string \<Rightarrow> IPPermissionInfo list \<Rightarrow> error option"

subsection \<open>Construction\<close>

definition second :: int where
  "second = 1000000000"

definition minute :: int where
  "minute = 60 * second"

definition defaultWaitSGDeletionPollInterval :: int where
  "defaultWaitSGDeletionPollInterval = 2 * second"

definition defaultWaitSGDeletionTimeout :: int where
  "defaultWaitSGDeletionTimeout = 2 * minute"

record defaultSecurityGroupManager =
  ec2Client :: EC2
  trackingProvider :: Provider
  taggingManager :: TaggingManager
  networkingSGReconciler :: SecurityGroupReconciler
  vpcID :: string
  waitSGDeletionPollInterval :: int
  waitSGDeletionTimeout :: int

definition NewDefaultSecurityGroupManager ::
  "EC2 \<Rightarrow> Provider \<Rightarrow> TaggingManager \<Rightarrow> SecurityGroupReconciler \<Rightarrow> string \<Rightarrow> defaultSecurityGroupManager" where
  "NewDefaultSecurityGroupManager ec2C trackingP taggingM networkingR vpc =
     \<lparr>ec2Client = ec2C,
      trackingProvider = trackingP,
      taggingManager = taggingM,
      networkingSGReconciler = networkingR,
      vpcID = vpc,
      waitSGDeletionPollInterval = defaultWaitSGDeletionPollInterval,
      waitSGDeletionTimeout = defaultWaitSGDeletionTimeout\<rparr>"

subsection \<open>Create and Update\<close>

text \<open>\<^verbatim>\<open>awssdk.StringValue\<close>: the string behind the pointer, empty for nil.\<close>

definition StringValue :: "string option \<Rightarrow> string" where
  "StringValue p = (case p of None \<Rightarrow> [] | Some s \<Rightarrow> s)"

text \<open>
  Each operation returns its Go result together with the calls it made.  An error return
  \<^verbatim>\<open>(SecurityGroupStatus{}, err)\<close> is \<open>Inl err\<close>.
\<close>

definition Create ::
  "defaultSecurityGroupManager \<Rightarrow> helpers \<Rightarrow> SecurityGroup
     \<Rightarrow> (error + SecurityGroupStatus) \<times> event list" where
  "Create m h resSG =
     (let sgTags = ResourceTags (trackingProvider m) (Stack resSG) resSG (SecurityGroupSpec.Tags (Spec resSG));
          sdkTags = convertTagsToSDKTags h sgTags
      in case buildIPPermissionInfos h (Ingress (Spec resSG)) of
           Inl err \<Rightarrow> (Inl err, [])
         | Inr permissionInfos \<Rightarrow>
             (let req = \<lparr>VpcId = vpcID m,
                         GroupName = SecurityGroupSpec.GroupName (Spec resSG),
                         Description = SecurityGroupSpec.Description (Spec resSG),
                         TagSpecifications = [\<lparr>ResourceType = ''security-group'', Tags = sdkTags\<rparr>]\<rparr>
              in case CreateSecurityGroupWithContext (ec2Client m) [] req of
                   Inl err \<Rightarrow> (Inl err, [CreateSecurityGroupCall req])
                 | Inr resp \<Rightarrow>
                     (let sgID = StringValue (CreateSecurityGroupOutput.GroupId resp)
                      in case ReconcileIngress (networkingSGReconciler m) [CreateSecurityGroupCall req]
                                sgID permissionInfos of
                           Some err \<Rightarrow>
                             (Inl err, [CreateSecurityGroupCall req, ReconcileIngressCall sgID permissionInfos])
                         | None \<Rightarrow>
                             (Inr \<lparr>GroupID = sgID\<rparr>,
                              [CreateSecurityGroupCall req, ReconcileIngressCall sgID permissionInfos]))))"

definition updateSDKSecurityGroupGroupWithTags ::
  "defaultSecurityGroupManager \<Rightarrow> SecurityGroup \<Rightarrow> SecurityGroupInfo \<Rightarrow> event list
     \<Rightarrow> error option \<times> event list" where
  "updateSDKSecurityGroupGroupWithTags m resSG sdkSG hist =
     (let desiredSGTags =
            ResourceTags (trackingProvider m) (Stack resSG) resSG (SecurityGroupSpec.Tags (Spec resSG));
          opts = [WithCurrentTags (SecurityGroupInfo.Tags sdkSG),
                  WithIgnoredTagKeys (LegacyTagKeys (trackingProvider m))]
      in (ReconcileTags (taggingManager m) hist (SecurityGroupID sdkSG) desiredSGTags opts,
          hist @ [ReconcileTagsCall (SecurityGroupID sdkSG) desiredSGTags opts]))"

definition Update ::
  "defaultSecurityGroupManager \<Rightarrow> helpers \<Rightarrow> SecurityGroup \<Rightarrow> SecurityGroupInfo
     \<Rightarrow> (error + SecurityGroupStatus) \<times> event list" where
  "Update m h resSG sdkSG =
     (case buildIPPermissionInfos h (Ingress (Spec resSG)) of
        Inl err \<Rightarrow> (Inl err, [])
      | Inr permissionInfos \<Rightarrow>
          (case updateSDKSecurityGroupGroupWithTags m resSG sdkSG [] of
             (Some err, hist) \<Rightarrow> (Inl err, hist)
           | (None, hist) \<Rightarrow>
               (case ReconcileIngress (networkingSGReconciler m) hist (SecurityGroupID sdkSG)
                       permissionInfos of
                  Some err \<Rightarrow>
                    (Inl err, hist @ [ReconcileIngressCall (SecurityGroupID sdkSG) permissionInfos])
                | None \<Rightarrow>
                    (Inr \<lparr>GroupID = SecurityGroupID sdkSG\<rparr>,
                     hist @ [ReconcileIngressCall (SecurityGroupID sdkSG) permissionInfos]))))"

subsection \<open>Delete and its polling loop\<close>

text \<open>
  \<^verbatim>\<open>wait.PollImmediateUntil(interval, condition, stopCh)\<close> belongs to the library
  \<^verbatim>\<open>k8s.io/apimachinery\<close>, which the file imports; it is not part of the repository.
  Its model follows the library's contract, which is also the loop of section 4.4 of the
  spec: the condition runs once at once; an error of the condition ends the poll with
  that error and \<open>done\<close> ends it with nil; otherwise, unless the stop channel is already
  closed, \<^verbatim>\<open>WaitFor\<close> runs the condition again at every tick of a ticker of the given
  interval, until the stop channel closes, which ends the poll with
  \<^verbatim>\<open>ErrWaitTimeout\<close>.  The utility is handed a channel and nothing else about the
  context, so the channel is modelled by the instant at which it closes.  The ticker
  panics on an interval that is not positive.  Besides the error and the calls made, the
  model returns the instant at which the poll returns.

  Time is discrete and a run of the condition takes no time.  \<^verbatim>\<open>WaitFor\<close> waits in a
  \<^verbatim>\<open>select\<close> on the tick and on the stop channel; when both are ready at the same
  instant Go serves either one.  Which one is a parameter of the model: with \<open>Tick\<close>
  the condition runs once more at the instant the stop channel closes, with \<open>Stop\<close> it
  does not.  The tick and the stop channel can be ready together at one instant of a run
  only, the instant the channel closes.
\<close>

datatype served = Tick | Stop

type_synonym ConditionFunc = "int \<Rightarrow> event list \<Rightarrow> (bool \<times> error option) \<times> event list"

function WaitFor ::
  "served \<Rightarrow> int \<Rightarrow> ConditionFunc \<Rightarrow> int \<Rightarrow> int \<Rightarrow> event list \<Rightarrow> error option \<times> event list \<times> int" where
  "WaitFor onTie interval fn stopAt now hist =
     (if interval \<le> 0 then (Some TickerPanic, hist, now)
      else if stopAt < now + interval \<or> (stopAt = now + interval \<and> onTie = Stop)
        then (Some ErrWaitTimeout, hist, max stopAt now)
      else (case fn (now + interval) hist of
              (r, hist') \<Rightarrow>
                (case snd r of
                   Some err \<Rightarrow> (Some err, hist', now + interval)
                 | None \<Rightarrow>
                     if fst r then (None, hist', now + interval)
                     else WaitFor onTie interval fn stopAt (now + interval) hist')))"
  by pat_completeness auto
termination
  by (relation "measure (\<lambda>(onTie, interval, fn, stopAt, now, hist). nat (stopAt - now))") auto

definition PollImmediateUntil ::
  "served \<Rightarrow> int \<Rightarrow> ConditionFunc \<Rightarrow> int \<Rightarrow> error option \<times> event list \<times> int" where
  "PollImmediateUntil onTie interval condition stopAt =
     (case condition 0 [] of
        (r, hist) \<Rightarrow>
          (case snd r of
             Some err \<Rightarrow> (Some err, hist, 0)
           | None \<Rightarrow>
               if fst r then (None, hist, 0)
               else if stopAt \<le> 0 then (Some ErrWaitTimeout, hist, 0)
               else WaitFor onTie interval condition stopAt 0 hist))"

text \<open>
  The condition closure of \<^verbatim>\<open>Delete\<close>: one delete-call under the derived context.  An
  \<^verbatim>\<open>awserr.Error\<close> whose code is \<^verbatim>\<open>DependencyViolation\<close> gives
  \<^verbatim>\<open>(false, nil)\<close>, any other error \<^verbatim>\<open>(false, err)\<close>, success
  \<^verbatim>\<open>(true, nil)\<close>.
\<close>

definition deleteCondition ::
  "defaultSecurityGroupManager \<Rightarrow> doneCtx \<Rightarrow> DeleteSecurityGroupInput \<Rightarrow> ConditionFunc" where
  "deleteCondition m ctx req now hist =
     (case DeleteSecurityGroupWithContext (ec2Client m) hist now (Err ctx now) req of
        Some err \<Rightarrow>
          (case err of
             AwsError code msg \<Rightarrow>
               if code = ''DependencyViolation'' then (False, None) else (False, Some err)
           | _ \<Rightarrow> (False, Some err))
      | None \<Rightarrow> (True, None),
      hist @ [DeleteSecurityGroupCall now req])"

text \<open>
  \<^verbatim>\<open>Delete\<close>, with the choice of the \<^verbatim>\<open>select\<close> as its second argument and the
  caller's context as its third.
\<close>

definition Delete ::
  "defaultSecurityGroupManager \<Rightarrow> served \<Rightarrow> context \<Rightarrow> SecurityGroupInfo
     \<Rightarrow> error option \<times> event list \<times> int" where
  "Delete m onTie ctx sdkSG =
     (let req = \<lparr>GroupId = SecurityGroupID sdkSG\<rparr>;
          ctx' = WithTimeout ctx (waitSGDeletionTimeout m)
      in PollImmediateUntil onTie (waitSGDeletionPollInterval m) (deleteCondition m ctx' req) (doneAt ctx'))"

section \<open>Collaborators for the concrete instances\<close>

text \<open>
  Fixed collaborators on which the theorems below are instantiated.  The tracking
  provider puts its two tracking tags first and keeps the user tags whose keys do not
  collide with them.  The provider client answers every create-call with the id
  \<^verbatim>\<open>sg-1\<close> and refuses the first \<open>n\<close> delete-calls of an operation with a
  dependency violation; \<open>blockedEC2\<close> refuses every delete-call; \<open>contextAwareEC2\<close>
  refuses every delete-call too, but answers a call under a context that is done with a
  \<^verbatim>\<open>RequestCanceled\<close> error that names the context's error.  Tag and ingress
  reconciliation succeed.
\<close>

definition exampleHelpers :: helpers where
  "exampleHelpers =
     \<lparr>NewIPPermissionLabelsForRawDescription = (\<lambda>d. [(''description'', d)]),
      convertTagsToSDKTags = map (\<lambda>kv. \<lparr>Key = fst kv, Value = snd kv\<rparr>)\<rparr>"

definition exampleProvider :: Provider where
  "exampleProvider =
     \<lparr>ResourceTags = (\<lambda>stack res userTags.
        [(''stack'', stack), (''resource'', ID res)]
          @ filter (\<lambda>kv. fst kv \<noteq> ''stack'' \<and> fst kv \<noteq> ''resource'') userTags),
      LegacyTagKeys = [''legacy'']\<rparr>"

definition exampleEC2 :: "nat \<Rightarrow> EC2" where
  "exampleEC2 n =
     \<lparr>CreateSecurityGroupWithContext = (\<lambda>hist req. Inr \<lparr>CreateSecurityGroupOutput.GroupId = Some ''sg-1''\<rparr>),
      DeleteSecurityGroupWithContext = (\<lambda>hist now ctxState req.
        if length hist < n then Some (AwsError ''DependencyViolation'' ''in use'') else None)\<rparr>"

definition blockedEC2 :: EC2 where
  "blockedEC2 =
     \<lparr>CreateSecurityGroupWithContext = (\<lambda>hist req. Inr \<lparr>CreateSecurityGroupOutput.GroupId = Some ''sg-1''\<rparr>),
      DeleteSecurityGroupWithContext = (\<lambda>hist now ctxState req.
        Some (AwsError ''DependencyViolation'' ''in use''))\<rparr>"

definition contextAwareEC2 :: EC2 where
  "contextAwareEC2 =
     \<lparr>CreateSecurityGroupWithContext = (\<lambda>hist req. Inr \<lparr>CreateSecurityGroupOutput.GroupId = Some ''sg-1''\<rparr>),
      DeleteSecurityGroupWithContext = (\<lambda>hist now ctxState req.
        case ctxState of
          Some Canceled \<Rightarrow> Some (AwsError ''RequestCanceled'' ''context canceled'')
        | Some DeadlineExceeded \<Rightarrow> Some (AwsError ''RequestCanceled'' ''context deadline exceeded'')
        | None \<Rightarrow> Some (AwsError ''DependencyViolation'' ''in use''))\<rparr>"

definition exampleTagging :: TaggingManager where
  "exampleTagging = \<lparr>ReconcileTags = (\<lambda>hist sgID desired opts. None)\<rparr>"

definition exampleReconciler :: SecurityGroupReconciler where
  "exampleReconciler = \<lparr>ReconcileIngress = (\<lambda>hist sgID permissions. None)\<rparr>"

definition exampleManager :: "EC2 \<Rightarrow> defaultSecurityGroupManager" where
  "exampleManager ec2C =
     NewDefaultSecurityGroupManager ec2C exampleProvider exampleTagging exampleReconciler ''vpc-1''"

definition exampleSG :: "IPPermission list \<Rightarrow> SecurityGroup" where
  "exampleSG rules =
     \<lparr>Stack = ''stack-1'', ID = ''sg'',
      Spec = \<lparr>SecurityGroupSpec.GroupName = ''web'', Description = ''web tier'',
              Tags = [(''team'', ''a''), (''stack'', ''mine'')], Ingress = rules\<rparr>\<rparr>"

definition exampleInfo :: SecurityGroupInfo where
  "exampleInfo = \<lparr>SecurityGroupID = ''sg-9'', SecurityGroupInfo.Tags = [(''old'', ''1'')]\<rparr>"

definition httpsRule :: IPPermission where
  "httpsRule =
     \<lparr>IPProtocol = ''tcp'', FromPort = Some 443, ToPort = Some 443,
      IPRanges = [\<lparr>CIDRIP = ''0.0.0.0/0'', Description = ''https''\<rparr>], IPv6Range = [],
      UserIDGroupPairs = []\<rparr>"

definition emptyRule :: IPPermission where
  "emptyRule =
     \<lparr>IPProtocol = ''tcp'', FromPort = Some 80, ToPort = Some 80,
      IPRanges = [], IPv6Range = [], UserIDGroupPairs = []\<rparr>"

section \<open>Properties of the translation\<close>

lemma buildIPPermissionInfo_error:
  "buildIPPermissionInfo h p = Inl e \<Longrightarrow> e = ErrorsNew ''invalid ipPermission''"
  by (auto simp: buildIPPermissionInfo_def Let_def split: if_splits)

text \<open>The loop succeeds exactly with the accumulator followed by the pointwise translations.\<close>

lemma buildIPPermissionInfos_loop_Inr:
  "(buildIPPermissionInfos_loop h ps acc = Inr out) =
     (\<exists>infos. out = acc @ infos \<and> list_all2 (\<lambda>p i. buildIPPermissionInfo h p = Inr i) ps infos)"
proof (induction ps arbitrary: acc)
  case Nil
  then show ?case by auto
next
  case (Cons p ps)
  show ?case
  proof (cases "buildIPPermissionInfo h p")
    case (Inl e)
    then show ?thesis by (auto simp: list_all2_Cons1)
  next
    case (Inr i)
    then show ?thesis by (auto simp: Cons.IH list_all2_Cons1)
  qed
qed

lemma buildIPPermissionInfos_Inr:
  "(buildIPPermissionInfos h ps = Inr infos) =
     list_all2 (\<lambda>p i. buildIPPermissionInfo h p = Inr i) ps infos"
  by (simp add: buildIPPermissionInfos_def buildIPPermissionInfos_loop_Inr)

lemma buildIPPermissionInfos_loop_Inl:
  "p \<in> set ps \<Longrightarrow> buildIPPermissionInfo h p = Inl e \<Longrightarrow>
     buildIPPermissionInfos_loop h ps acc = Inl (ErrorsNew ''invalid ipPermission'')"
proof (induction ps arbitrary: acc)
  case Nil
  then show ?case by simp
next
  case (Cons q qs)
  show ?case
  proof (cases "buildIPPermissionInfo h q")
    case (Inl e')
    then show ?thesis by (simp add: buildIPPermissionInfo_error)
  next
    case (Inr i)
    with Cons show ?thesis by auto
  qed
qed

text \<open>
  C1, as amended.  Translating a rule fails, with the error ``invalid ipPermission'',
  exactly when none of the three target lists (IPv4 CIDRs, IPv6 CIDRs, peer groups) has
  length exactly 1, which covers every rule with no target kind populated.  It succeeds
  whenever at least one of the lists has length exactly 1, also when more than one
  target kind is populated.
\<close>

theorem translation_fails_iff_no_singleton_list:
  "(if length (IPRanges p) \<noteq> 1 \<and> length (IPv6Range p) \<noteq> 1 \<and> length (UserIDGroupPairs p) \<noteq> 1
    then buildIPPermissionInfo h p = Inl (ErrorsNew ''invalid ipPermission'')
    else \<exists>info. buildIPPermissionInfo h p = Inr info)"
  by (simp add: buildIPPermissionInfo_def Let_def)

text \<open>
  C1 as stated fails: a rule with both an IPv4 CIDR and an IPv6 CIDR has two target kinds
  populated, and its translation succeeds with the IPv4 CIDR as target.
\<close>

theorem two_target_kinds_translate:
  "buildIPPermissionInfo exampleHelpers
     \<lparr>IPProtocol = ''tcp'', FromPort = Some 80, ToPort = Some 80,
      IPRanges = [\<lparr>CIDRIP = ''10.0.0.0/8'', Description = ''a''\<rparr>],
      IPv6Range = [\<lparr>CIDRIPv6 = ''::/0'', Description = ''b''\<rparr>],
      UserIDGroupPairs = []\<rparr>
   = Inr \<lparr>ipProtocol = ''tcp'', fromPort = Some 80, toPort = Some 80,
          permTarget = CIDR ''10.0.0.0/8'', Labels = [(''description'', ''a'')]\<rparr>"
  by (simp add: buildIPPermissionInfo_def exampleHelpers_def NewCIDRIPPermission_def)

text \<open>
  C5.  A rule with exactly one target kind populated, by a list of length exactly 1,
  translates successfully; the permission carries the rule's protocol, from-port and
  to-port and the target value of that one entry unchanged, under the entry's target
  kind, with the labels of the entry's description.
\<close>

theorem single_target_translation:
  "(IPRanges p = [r] \<and> IPv6Range p = [] \<and> UserIDGroupPairs p = [] \<longrightarrow>
      buildIPPermissionInfo h p =
        Inr \<lparr>ipProtocol = IPProtocol p, fromPort = FromPort p, toPort = ToPort p,
             permTarget = CIDR (CIDRIP r),
             Labels = NewIPPermissionLabelsForRawDescription h (IPRange.Description r)\<rparr>)
   \<and> (IPRanges p = [] \<and> IPv6Range p = [r6] \<and> UserIDGroupPairs p = [] \<longrightarrow>
      buildIPPermissionInfo h p =
        Inr \<lparr>ipProtocol = IPProtocol p, fromPort = FromPort p, toPort = ToPort p,
             permTarget = CIDRv6 (CIDRIPv6 r6),
             Labels = NewIPPermissionLabelsForRawDescription h (IPv6Range.Description r6)\<rparr>)
   \<and> (IPRanges p = [] \<and> IPv6Range p = [] \<and> UserIDGroupPairs p = [g] \<longrightarrow>
      buildIPPermissionInfo h p =
        Inr \<lparr>ipProtocol = IPProtocol p, fromPort = FromPort p, toPort = ToPort p,
             permTarget = PeerGroup (UserIDGroupPair.GroupID g),
             Labels = NewIPPermissionLabelsForRawDescription h (UserIDGroupPair.Description g)\<rparr>)"
  by (simp add: buildIPPermissionInfo_def NewCIDRIPPermission_def NewCIDRv6IPPermission_def
        NewGroupIDIPPermission_def)

theorem single_target_translation_witness:
  "buildIPPermissionInfo exampleHelpers
     \<lparr>IPProtocol = ''tcp'', FromPort = Some 80, ToPort = Some 81,
      IPRanges = [\<lparr>CIDRIP = ''10.0.0.0/8'', Description = ''a''\<rparr>], IPv6Range = [],
      UserIDGroupPairs = []\<rparr>
   = Inr \<lparr>ipProtocol = ''tcp'', fromPort = Some 80, toPort = Some 81,
          permTarget = CIDR ''10.0.0.0/8'', Labels = [(''description'', ''a'')]\<rparr>
   \<and> buildIPPermissionInfo exampleHelpers
     \<lparr>IPProtocol = ''udp'', FromPort = None, ToPort = None,
      IPRanges = [], IPv6Range = [\<lparr>CIDRIPv6 = ''::/0'', Description = ''b''\<rparr>],
      UserIDGroupPairs = []\<rparr>
   = Inr \<lparr>ipProtocol = ''udp'', fromPort = None, toPort = None,
          permTarget = CIDRv6 ''::/0'', Labels = [(''description'', ''b'')]\<rparr>
   \<and> buildIPPermissionInfo exampleHelpers
     \<lparr>IPProtocol = ''tcp'', FromPort = Some 22, ToPort = Some 22,
      IPRanges = [], IPv6Range = [],
      UserIDGroupPairs = [\<lparr>UserIDGroupPair.GroupID = ''sg-7'', Description = ''c''\<rparr>]\<rparr>
   = Inr \<lparr>ipProtocol = ''tcp'', fromPort = Some 22, toPort = Some 22,
          permTarget = PeerGroup ''sg-7'', Labels = [(''description'', ''c'')]\<rparr>"
  using
    single_target_translation [of "\<lparr>IPProtocol = ''tcp'', FromPort = Some 80, ToPort = Some 81,
      IPRanges = [\<lparr>CIDRIP = ''10.0.0.0/8'', Description = ''a''\<rparr>], IPv6Range = [],
      UserIDGroupPairs = []\<rparr>" "\<lparr>CIDRIP = ''10.0.0.0/8'', Description = ''a''\<rparr>" exampleHelpers]
    single_target_translation [of "\<lparr>IPProtocol = ''udp'', FromPort = None, ToPort = None,
      IPRanges = [], IPv6Range = [\<lparr>CIDRIPv6 = ''::/0'', Description = ''b''\<rparr>],
      UserIDGroupPairs = []\<rparr>" _ exampleHelpers "\<lparr>CIDRIPv6 = ''::/0'', Description = ''b''\<rparr>"]
    single_target_translation [of "\<lparr>IPProtocol = ''tcp'', FromPort = Some 22, ToPort = Some 22,
      IPRanges = [], IPv6Range = [],
      UserIDGroupPairs = [\<lparr>UserIDGroupPair.GroupID = ''sg-7'', Description = ''c''\<rparr>]\<rparr>" _ exampleHelpers _
      "\<lparr>UserIDGroupPair.GroupID = ''sg-7'', Description = ''c''\<rparr>"]
  by (simp add: exampleHelpers_def)

text \<open>
  C6.  The translation of a rule list succeeds exactly with the list of the rules'
  own translations, in input order.  When the translation of any rule fails, the
  translation of the list returns the error and no permission list, and both
  \<^verbatim>\<open>Create\<close> and \<^verbatim>\<open>Update\<close> return that error having made no call on the
  provider client, the tagging manager or the ingress reconciler.
\<close>

theorem translation_fail_fast:
  "(\<forall>infos. (buildIPPermissionInfos h (Ingress (Spec resSG)) = Inr infos) =
       list_all2 (\<lambda>p i. buildIPPermissionInfo h p = Inr i) (Ingress (Spec resSG)) infos)
   \<and> ((\<exists>p \<in> set (Ingress (Spec resSG)). \<exists>e. buildIPPermissionInfo h p = Inl e) \<longrightarrow>
        buildIPPermissionInfos h (Ingress (Spec resSG)) = Inl (ErrorsNew ''invalid ipPermission'')
        \<and> Create m h resSG = (Inl (ErrorsNew ''invalid ipPermission''), [])
        \<and> Update m h resSG sdkSG = (Inl (ErrorsNew ''invalid ipPermission''), []))"
proof (intro conjI allI impI)
  fix infos
  show "(buildIPPermissionInfos h (Ingress (Spec resSG)) = Inr infos) =
       list_all2 (\<lambda>p i. buildIPPermissionInfo h p = Inr i) (Ingress (Spec resSG)) infos"
    by (rule buildIPPermissionInfos_Inr)
next
  assume "\<exists>p \<in> set (Ingress (Spec resSG)). \<exists>e. buildIPPermissionInfo h p = Inl e"
  then have bad: "buildIPPermissionInfos h (Ingress (Spec resSG)) = Inl (ErrorsNew ''invalid ipPermission'')"
    unfolding buildIPPermissionInfos_def by (blast intro: buildIPPermissionInfos_loop_Inl)
  show "buildIPPermissionInfos h (Ingress (Spec resSG)) = Inl (ErrorsNew ''invalid ipPermission'')"
    by (rule bad)
  show "Create m h resSG = (Inl (ErrorsNew ''invalid ipPermission''), [])"
    by (simp add: Create_def bad)
  show "Update m h resSG sdkSG = (Inl (ErrorsNew ''invalid ipPermission''), [])"
    by (simp add: Update_def bad)
qed

theorem translation_fail_fast_witness:
  "emptyRule \<in> set (Ingress (Spec (exampleSG [httpsRule, emptyRule])))
   \<and> buildIPPermissionInfo exampleHelpers emptyRule = Inl (ErrorsNew ''invalid ipPermission'')
   \<and> buildIPPermissionInfos exampleHelpers [httpsRule, emptyRule] = Inl (ErrorsNew ''invalid ipPermission'')
   \<and> Create (exampleManager (exampleEC2 0)) exampleHelpers (exampleSG [httpsRule, emptyRule])
       = (Inl (ErrorsNew ''invalid ipPermission''), [])
   \<and> Update (exampleManager (exampleEC2 0)) exampleHelpers (exampleSG [httpsRule, emptyRule]) exampleInfo
       = (Inl (ErrorsNew ''invalid ipPermission''), [])"
proof -
  have bad: "buildIPPermissionInfo exampleHelpers emptyRule = Inl (ErrorsNew ''invalid ipPermission'')"
    by (simp add: buildIPPermissionInfo_def emptyRule_def)
  have mem: "emptyRule \<in> set (Ingress (Spec (exampleSG [httpsRule, emptyRule])))"
    by (simp add: exampleSG_def)
  from mem bad have "\<exists>p \<in> set (Ingress (Spec (exampleSG [httpsRule, emptyRule]))).
      \<exists>e. buildIPPermissionInfo exampleHelpers p = Inl e"
    by blast
  with translation_fail_fast [of exampleHelpers "exampleSG [httpsRule, emptyRule]"
      "exampleManager (exampleEC2 0)" exampleInfo] mem bad
  show ?thesis by (simp add: exampleSG_def)
qed

section \<open>Properties of Create and Update\<close>

lemma exampleManager_simps:
  "ec2Client (exampleManager ec2C) = ec2C"
  "trackingProvider (exampleManager ec2C) = exampleProvider"
  "taggingManager (exampleManager ec2C) = exampleTagging"
  "networkingSGReconciler (exampleManager ec2C) = exampleReconciler"
  "vpcID (exampleManager ec2C) = ''vpc-1''"
  "waitSGDeletionPollInterval (exampleManager ec2C) = 2000000000"
  "waitSGDeletionTimeout (exampleManager ec2C) = 120000000000"
  by (simp_all add: exampleManager_def NewDefaultSecurityGroupManager_def
        defaultWaitSGDeletionPollInterval_def defaultWaitSGDeletionTimeout_def second_def minute_def)

text \<open>
  C7.  For a spec whose only ingress rule is tcp, ports 443 to 443, CIDR 0.0.0.0/0, with a
  create-call and an ingress reconciliation that succeed: the translation yields exactly
  one permission, of target kind CIDR with value 0.0.0.0/0 and ports 443 to 443;
  \<^verbatim>\<open>Create\<close> makes exactly two calls, the create-call, whose request holds the VPC id,
  the name, the description and the tags the tracking provider computed from the user
  tags (and has no field for ingress rules), then \<^verbatim>\<open>ReconcileIngress\<close> on the id the
  create-call returned with that one permission; it returns a status holding that id.
\<close>

theorem create_single_cidr_rule:
  assumes rules: "Ingress (Spec resSG) =
      [\<lparr>IPProtocol = ''tcp'', FromPort = Some 443, ToPort = Some 443,
        IPRanges = [\<lparr>CIDRIP = ''0.0.0.0/0'', Description = d\<rparr>], IPv6Range = [],
        UserIDGroupPairs = []\<rparr>]"
    and req: "req = \<lparr>VpcId = vpcID m,
                    GroupName = SecurityGroupSpec.GroupName (Spec resSG),
                    Description = SecurityGroupSpec.Description (Spec resSG),
                    TagSpecifications =
                      [\<lparr>ResourceType = ''security-group'',
                        Tags = convertTagsToSDKTags h
                          (ResourceTags (trackingProvider m) (Stack resSG) resSG
                             (SecurityGroupSpec.Tags (Spec resSG)))\<rparr>]\<rparr>"
    and perm: "perm = \<lparr>ipProtocol = ''tcp'', fromPort = Some 443, toPort = Some 443,
                     permTarget = CIDR ''0.0.0.0/0'',
                     Labels = NewIPPermissionLabelsForRawDescription h d\<rparr>"
    and created: "CreateSecurityGroupWithContext (ec2Client m) [] req = Inr resp"
    and reconciled: "ReconcileIngress (networkingSGReconciler m) [CreateSecurityGroupCall req]
                       (StringValue (CreateSecurityGroupOutput.GroupId resp)) [perm] = None"
  shows "buildIPPermissionInfos h (Ingress (Spec resSG)) = Inr [perm]
     \<and> Create m h resSG =
         (Inr \<lparr>GroupID = StringValue (CreateSecurityGroupOutput.GroupId resp)\<rparr>,
          [CreateSecurityGroupCall req,
           ReconcileIngressCall (StringValue (CreateSecurityGroupOutput.GroupId resp)) [perm]])"
proof -
  have infos: "buildIPPermissionInfos h (Ingress (Spec resSG)) = Inr [perm]"
    by (simp add: rules perm buildIPPermissionInfos_def buildIPPermissionInfo_def NewCIDRIPPermission_def)
  show ?thesis
    using created reconciled by (simp add: infos Create_def Let_def req [symmetric])
qed

theorem create_single_cidr_rule_witness:
  "Create (exampleManager (exampleEC2 0)) exampleHelpers
      (exampleSG [\<lparr>IPProtocol = ''tcp'', FromPort = Some 443, ToPort = Some 443,
        IPRanges = [\<lparr>CIDRIP = ''0.0.0.0/0'', Description = ''https''\<rparr>], IPv6Range = [],
        UserIDGroupPairs = []\<rparr>])
   = (Inr \<lparr>GroupID = ''sg-1''\<rparr>,
      [CreateSecurityGroupCall
         \<lparr>VpcId = ''vpc-1'', GroupName = ''web'', Description = ''web tier'',
          TagSpecifications =
            [\<lparr>ResourceType = ''security-group'',
              Tags = [\<lparr>Key = ''stack'', Value = ''stack-1''\<rparr>, \<lparr>Key = ''resource'', Value = ''sg''\<rparr>,
                      \<lparr>Key = ''team'', Value = ''a''\<rparr>]\<rparr>]\<rparr>,
       ReconcileIngressCall ''sg-1''
         [\<lparr>ipProtocol = ''tcp'', fromPort = Some 443, toPort = Some 443,
           permTarget = CIDR ''0.0.0.0/0'', Labels = [(''description'', ''https'')]\<rparr>]])"
  using create_single_cidr_rule [of "exampleSG [\<lparr>IPProtocol = ''tcp'', FromPort = Some 443, ToPort = Some 443,
        IPRanges = [\<lparr>CIDRIP = ''0.0.0.0/0'', Description = ''https''\<rparr>], IPv6Range = [],
        UserIDGroupPairs = []\<rparr>]" "''https''" _ "exampleManager (exampleEC2 0)" exampleHelpers _
        "\<lparr>CreateSecurityGroupOutput.GroupId = Some ''sg-1''\<rparr>", OF _ refl refl]
  by (simp add: exampleManager_simps exampleSG_def exampleEC2_def exampleReconciler_def
        exampleHelpers_def exampleProvider_def StringValue_def)

text \<open>
  C8.  \<^verbatim>\<open>Update\<close> never makes a create-call.  Every call it makes is either the tag
  reconciliation on the existing id, with the tags of the tracking provider, the existing
  group's current tags and the legacy keys as ignored keys, or an ingress reconciliation
  on the existing id.  When it succeeds, it has made exactly these two calls in this
  order, and the status holds exactly the existing id.
\<close>

theorem update_issues_no_create_call:
  "(let tagsCall = ReconcileTagsCall (SecurityGroupID sdkSG)
        (ResourceTags (trackingProvider m) (Stack resSG) resSG (SecurityGroupSpec.Tags (Spec resSG)))
        [WithCurrentTags (SecurityGroupInfo.Tags sdkSG),
         WithIgnoredTagKeys (LegacyTagKeys (trackingProvider m))]
    in (\<forall>req. CreateSecurityGroupCall req \<notin> set (snd (Update m h resSG sdkSG)))
       \<and> (\<forall>ev \<in> set (snd (Update m h resSG sdkSG)).
             ev = tagsCall \<or> (\<exists>perms. ev = ReconcileIngressCall (SecurityGroupID sdkSG) perms))
       \<and> (\<forall>st. fst (Update m h resSG sdkSG) = Inr st \<longrightarrow>
             st = \<lparr>GroupID = SecurityGroupID sdkSG\<rparr>
             \<and> (\<exists>perms. buildIPPermissionInfos h (Ingress (Spec resSG)) = Inr perms
                  \<and> snd (Update m h resSG sdkSG) =
                      [tagsCall, ReconcileIngressCall (SecurityGroupID sdkSG) perms])))"
  by (auto simp: Update_def updateSDKSecurityGroupGroupWithTags_def
        Let_def split: sum.split option.split)

theorem update_issues_no_create_call_witness:
  "Update (exampleManager (exampleEC2 0)) exampleHelpers (exampleSG [httpsRule]) exampleInfo
   = (Inr \<lparr>GroupID = ''sg-9''\<rparr>,
      [ReconcileTagsCall ''sg-9'' [(''stack'', ''stack-1''), (''resource'', ''sg''), (''team'', ''a'')]
         [WithCurrentTags [(''old'', ''1'')], WithIgnoredTagKeys [''legacy'']],
       ReconcileIngressCall ''sg-9''
         [\<lparr>ipProtocol = ''tcp'', fromPort = Some 443, toPort = Some 443,
           permTarget = CIDR ''0.0.0.0/0'', Labels = [(''description'', ''https'')]\<rparr>]])"
proof -
  have run: "Update (exampleManager (exampleEC2 0)) exampleHelpers (exampleSG [httpsRule]) exampleInfo
     = (Inr \<lparr>GroupID = ''sg-9''\<rparr>,
      [ReconcileTagsCall ''sg-9'' [(''stack'', ''stack-1''), (''resource'', ''sg''), (''team'', ''a'')]
         [WithCurrentTags [(''old'', ''1'')], WithIgnoredTagKeys [''legacy'']],
       ReconcileIngressCall ''sg-9''
         [\<lparr>ipProtocol = ''tcp'', fromPort = Some 443, toPort = Some 443,
           permTarget = CIDR ''0.0.0.0/0'', Labels = [(''description'', ''https'')]\<rparr>]])"
    by (simp add: Update_def updateSDKSecurityGroupGroupWithTags_def exampleManager_simps exampleSG_def
          exampleInfo_def httpsRule_def exampleTagging_def exampleReconciler_def exampleHelpers_def
          exampleProvider_def buildIPPermissionInfos_def buildIPPermissionInfo_def
          NewCIDRIPPermission_def)
  with update_issues_no_create_call [of exampleInfo "exampleManager (exampleEC2 0)" "exampleSG [httpsRule]" exampleHelpers]
  show ?thesis by simp
qed

text \<open>
  C10.  The translation of the empty rule list is the empty permission list, never an
  error.  On a spec without ingress rules \<^verbatim>\<open>Create\<close> makes the create-call and, when
  that succeeds, calls \<^verbatim>\<open>ReconcileIngress\<close> with the empty permission list;
  \<^verbatim>\<open>Update\<close> reconciles the tags and, when that succeeds, calls
  \<^verbatim>\<open>ReconcileIngress\<close> with the empty permission list.
\<close>

theorem empty_ingress_translation:
  "buildIPPermissionInfos h [] = Inr []
   \<and> (Ingress (Spec resSG) = [] \<longrightarrow>
        (let req = \<lparr>VpcId = vpcID m,
                    GroupName = SecurityGroupSpec.GroupName (Spec resSG),
                    Description = SecurityGroupSpec.Description (Spec resSG),
                    TagSpecifications =
                      [\<lparr>ResourceType = ''security-group'',
                        Tags = convertTagsToSDKTags h
                          (ResourceTags (trackingProvider m) (Stack resSG) resSG
                             (SecurityGroupSpec.Tags (Spec resSG)))\<rparr>]\<rparr>
         in case CreateSecurityGroupWithContext (ec2Client m) [] req of
              Inl err \<Rightarrow> Create m h resSG = (Inl err, [CreateSecurityGroupCall req])
            | Inr resp \<Rightarrow>
                snd (Create m h resSG) =
                  [CreateSecurityGroupCall req,
                   ReconcileIngressCall (StringValue (CreateSecurityGroupOutput.GroupId resp)) []])
        \<and> (let tagsCall = ReconcileTagsCall (SecurityGroupID sdkSG)
                (ResourceTags (trackingProvider m) (Stack resSG) resSG (SecurityGroupSpec.Tags (Spec resSG)))
                [WithCurrentTags (SecurityGroupInfo.Tags sdkSG),
                 WithIgnoredTagKeys (LegacyTagKeys (trackingProvider m))]
            in case ReconcileTags (taggingManager m) [] (SecurityGroupID sdkSG)
                      (ResourceTags (trackingProvider m) (Stack resSG) resSG
                         (SecurityGroupSpec.Tags (Spec resSG)))
                      [WithCurrentTags (SecurityGroupInfo.Tags sdkSG),
                       WithIgnoredTagKeys (LegacyTagKeys (trackingProvider m))] of
                 Some err \<Rightarrow> Update m h resSG sdkSG = (Inl err, [tagsCall])
               | None \<Rightarrow>
                   snd (Update m h resSG sdkSG) =
                     [tagsCall, ReconcileIngressCall (SecurityGroupID sdkSG) []]))"
  by (simp add: buildIPPermissionInfos_def Create_def Update_def updateSDKSecurityGroupGroupWithTags_def
        Let_def split: sum.split option.split)

theorem empty_ingress_translation_witness:
  "Ingress (Spec (exampleSG [])) = []
   \<and> snd (Create (exampleManager (exampleEC2 0)) exampleHelpers (exampleSG []))
     = [CreateSecurityGroupCall
         \<lparr>VpcId = ''vpc-1'', GroupName = ''web'', Description = ''web tier'',
          TagSpecifications =
            [\<lparr>ResourceType = ''security-group'',
              Tags = [\<lparr>Key = ''stack'', Value = ''stack-1''\<rparr>, \<lparr>Key = ''resource'', Value = ''sg''\<rparr>,
                      \<lparr>Key = ''team'', Value = ''a''\<rparr>]\<rparr>]\<rparr>,
        ReconcileIngressCall ''sg-1'' []]
   \<and> snd (Update (exampleManager (exampleEC2 0)) exampleHelpers (exampleSG []) exampleInfo)
     = [ReconcileTagsCall ''sg-9'' [(''stack'', ''stack-1''), (''resource'', ''sg''), (''team'', ''a'')]
         [WithCurrentTags [(''old'', ''1'')], WithIgnoredTagKeys [''legacy'']],
        ReconcileIngressCall ''sg-9'' []]"
  using empty_ingress_translation [of exampleHelpers "exampleSG []" "exampleManager (exampleEC2 0)" exampleInfo]
  by (simp add: Let_def exampleManager_simps exampleSG_def exampleEC2_def exampleInfo_def
        exampleTagging_def exampleHelpers_def exampleProvider_def StringValue_def
        updateSDKSecurityGroupGroupWithTags_def)

section \<open>Properties of Delete\<close>

declare WaitFor.simps [simp del]

lemma deleteCondition_ok:
  "DeleteSecurityGroupWithContext (ec2Client m) hist now (Err ctx now) req = None \<Longrightarrow>
     deleteCondition m ctx req now hist = ((True, None), hist @ [DeleteSecurityGroupCall now req])"
  by (simp add: deleteCondition_def)

lemma deleteCondition_blocked:
  "DeleteSecurityGroupWithContext (ec2Client m) hist now (Err ctx now) req
       = Some (AwsError ''DependencyViolation'' msg) \<Longrightarrow>
     deleteCondition m ctx req now hist = ((False, None), hist @ [DeleteSecurityGroupCall now req])"
  by (simp add: deleteCondition_def)

lemma deleteCondition_failed:
  "DeleteSecurityGroupWithContext (ec2Client m) hist now (Err ctx now) req = Some err \<Longrightarrow>
     \<forall>msg. err \<noteq> AwsError ''DependencyViolation'' msg \<Longrightarrow>
     deleteCondition m ctx req now hist = ((False, Some err), hist @ [DeleteSecurityGroupCall now req])"
  by (cases err) (auto simp: deleteCondition_def)

lemma deleteCondition_hist:
  "snd (deleteCondition m ctx req now hist) = hist @ [DeleteSecurityGroupCall now req]"
  by (simp add: deleteCondition_def)

text \<open>
  Whatever the delete-calls answer and whichever way a tie is served: the loop only adds
  delete-calls, each at an instant after the current one and not after the closing of the
  stop channel, and it returns within these bounds.
\<close>

lemma WaitFor_calls:
  "now \<le> stopAt \<Longrightarrow>
   \<exists>new. fst (snd (WaitFor onTie interval (deleteCondition m ctx req) stopAt now hist)) = hist @ new
     \<and> (\<forall>ev \<in> set new. \<exists>t. ev = DeleteSecurityGroupCall t req \<and> now < t \<and> t \<le> stopAt)
     \<and> now \<le> snd (snd (WaitFor onTie interval (deleteCondition m ctx req) stopAt now hist))
     \<and> snd (snd (WaitFor onTie interval (deleteCondition m ctx req) stopAt now hist)) \<le> stopAt"
proof (induction onTie interval "deleteCondition m ctx req" stopAt now hist rule: WaitFor.induct)
  case (1 onTie interval stopAt now hist)
  let ?fn = "deleteCondition m ctx req"
  show ?case
  proof (cases "interval \<le> 0 \<or> stopAt < now + interval \<or> (stopAt = now + interval \<and> onTie = Stop)")
    case True
    with 1(2) show ?thesis
      by (auto simp: WaitFor.simps [of onTie interval ?fn stopAt now hist])
  next
    case False
    obtain r hist' where fn: "?fn (now + interval) hist = (r, hist')"
      by (cases "?fn (now + interval) hist")
    have hist': "hist' = hist @ [DeleteSecurityGroupCall (now + interval) req]"
      using fn deleteCondition_hist [of m ctx req "now + interval" hist] by simp
    from False have le: "now + interval \<le> stopAt" by auto
    from False have pos: "0 < interval" by simp
    show ?thesis
    proof (cases "snd r = None \<and> \<not> fst r")
      case stop: False
      with False fn hist' le pos show ?thesis
        by (auto simp: WaitFor.simps [of onTie interval ?fn stopAt now hist] split: option.split)
    next
      case again: True
      have eq: "WaitFor onTie interval ?fn stopAt now hist
          = WaitFor onTie interval ?fn stopAt (now + interval) hist'"
        using False fn again by (auto simp: WaitFor.simps [of onTie interval ?fn stopAt now hist])
      from False have c1: "\<not> interval \<le> 0"
        and c2: "\<not> (stopAt < now + interval \<or> (stopAt = now + interval \<and> onTie = Stop))"
        by auto
      from again have c3: "snd r = None" and c4: "\<not> fst r" by auto
      from 1(1) [OF c1 c2 fn [symmetric] c3 c4 le]
      obtain new where new: "fst (snd (WaitFor onTie interval ?fn stopAt (now + interval) hist')) = hist' @ new"
        "\<forall>ev \<in> set new. \<exists>t. ev = DeleteSecurityGroupCall t req \<and> now + interval < t \<and> t \<le> stopAt"
        "now + interval \<le> snd (snd (WaitFor onTie interval ?fn stopAt (now + interval) hist'))"
        "snd (snd (WaitFor onTie interval ?fn stopAt (now + interval) hist')) \<le> stopAt"
        by auto
      show ?thesis
      proof (intro exI [of _ "DeleteSecurityGroupCall (now + interval) req # new"] conjI ballI)
        show "fst (snd (WaitFor onTie interval ?fn stopAt now hist)) =
            hist @ DeleteSecurityGroupCall (now + interval) req # new"
          using new(1) hist' eq by simp
      next
        fix ev assume "ev \<in> set (DeleteSecurityGroupCall (now + interval) req # new)"
        with new(2) le pos show "\<exists>t. ev = DeleteSecurityGroupCall t req \<and> now < t \<and> t \<le> stopAt"
          by auto
      next
        show "now \<le> snd (snd (WaitFor onTie interval ?fn stopAt now hist))"
          using new(3) eq pos by simp
      next
        show "snd (snd (WaitFor onTie interval ?fn stopAt now hist)) \<le> stopAt"
          using new(4) eq by simp
      qed
    qed
  qed
qed

text \<open>
  When every delete-call is refused with the dependency violation, the loop runs until
  the stop channel closes, and the calls it adds are at least one per interval.
\<close>

lemma WaitFor_blocked:
  assumes blocked: "\<forall>hist now st. \<exists>msg.
      DeleteSecurityGroupWithContext (ec2Client m) hist now st req
        = Some (AwsError ''DependencyViolation'' msg)"
  shows "0 < interval \<Longrightarrow> now \<le> stopAt \<Longrightarrow>
    fst (WaitFor onTie interval (deleteCondition m ctx req) stopAt now hist) = Some ErrWaitTimeout
    \<and> snd (snd (WaitFor onTie interval (deleteCondition m ctx req) stopAt now hist)) = stopAt
    \<and> stopAt - now \<le>
        (int (length (fst (snd (WaitFor onTie interval (deleteCondition m ctx req) stopAt now hist))))
           - int (length hist) + 1) * interval"
proof (induction onTie interval "deleteCondition m ctx req" stopAt now hist rule: WaitFor.induct)
  case (1 onTie interval stopAt now hist)
  let ?fn = "deleteCondition m ctx req"
  show ?case
  proof (cases "stopAt < now + interval \<or> (stopAt = now + interval \<and> onTie = Stop)")
    case True
    with 1(2,3) show ?thesis
      by (auto simp: WaitFor.simps [of onTie interval ?fn stopAt now hist])
  next
    case False
    let ?hist' = "hist @ [DeleteSecurityGroupCall (now + interval) req]"
    from blocked obtain msg where
      "DeleteSecurityGroupWithContext (ec2Client m) hist (now + interval) (Err ctx (now + interval)) req
         = Some (AwsError ''DependencyViolation'' msg)"
      by blast
    then have fn: "?fn (now + interval) hist = ((False, None), ?hist')"
      by (rule deleteCondition_blocked)
    have eq: "WaitFor onTie interval ?fn stopAt now hist
        = WaitFor onTie interval ?fn stopAt (now + interval) ?hist'"
      using False 1(2) fn by (auto simp: WaitFor.simps [of onTie interval ?fn stopAt now hist])
    from False have le: "now + interval \<le> stopAt" by auto
    from 1(2) have c1: "\<not> interval \<le> 0" by simp
    from 1(1) [OF c1 False fn [symmetric] _ _ 1(2) le]
    have ih: "fst (WaitFor onTie interval ?fn stopAt (now + interval) ?hist') = Some ErrWaitTimeout"
      "snd (snd (WaitFor onTie interval ?fn stopAt (now + interval) ?hist')) = stopAt"
      "stopAt - (now + interval) \<le>
        (int (length (fst (snd (WaitFor onTie interval ?fn stopAt (now + interval) ?hist'))))
           - int (length ?hist') + 1) * interval"
      by simp_all
    from ih(3) have "stopAt - now \<le>
        (int (length (fst (snd (WaitFor onTie interval ?fn stopAt (now + interval) ?hist'))))
           - int (length hist) + 1) * interval"
      by (simp add: algebra_simps)
    with ih(1,2) show ?thesis by (simp add: eq)
  qed
qed

lemma WaitFor_next_call:
  "0 < interval \<Longrightarrow> now + interval < stopAt \<Longrightarrow>
     \<exists>rest. fst (snd (WaitFor onTie interval (deleteCondition m ctx req) stopAt now hist))
        = hist @ DeleteSecurityGroupCall (now + interval) req # rest"
proof -
  assume pos: "0 < interval" and lt: "now + interval < stopAt"
  let ?fn = "deleteCondition m ctx req"
  obtain r hist' where fn: "?fn (now + interval) hist = (r, hist')"
    by (cases "?fn (now + interval) hist")
  have hist': "hist' = hist @ [DeleteSecurityGroupCall (now + interval) req]"
    using fn deleteCondition_hist [of m ctx req "now + interval" hist] by simp
  show ?thesis
  proof (cases "snd r = None \<and> \<not> fst r")
    case False
    with pos lt fn hist' show ?thesis
      by (auto simp: WaitFor.simps [of onTie interval ?fn stopAt now hist] split: option.split)
  next
    case True
    with pos lt fn have "WaitFor onTie interval ?fn stopAt now hist
        = WaitFor onTie interval ?fn stopAt (now + interval) hist'"
      by (simp add: WaitFor.simps [of onTie interval ?fn stopAt now hist])
    moreover from lt have "now + interval \<le> stopAt" by simp
    note WaitFor_calls [OF this, of onTie interval m ctx req hist']
    ultimately show ?thesis using hist' by auto
  qed
qed

lemma Delete_blocked:
  assumes blocked: "\<forall>hist now st. \<exists>msg.
      DeleteSecurityGroupWithContext (ec2Client m) hist now st \<lparr>GroupId = SecurityGroupID sdkSG\<rparr>
        = Some (AwsError ''DependencyViolation'' msg)"
    and pos: "0 < waitSGDeletionPollInterval m"
  shows "fst (Delete m onTie ctx sdkSG) = Some ErrWaitTimeout
    \<and> snd (snd (Delete m onTie ctx sdkSG)) = max 0 (doneAt (WithTimeout ctx (waitSGDeletionTimeout m)))
    \<and> doneAt (WithTimeout ctx (waitSGDeletionTimeout m))
        \<le> int (length (fst (snd (Delete m onTie ctx sdkSG)))) * waitSGDeletionPollInterval m"
proof -
  define req where "req = \<lparr>GroupId = SecurityGroupID sdkSG\<rparr>"
  define ctx' where "ctx' = WithTimeout ctx (waitSGDeletionTimeout m)"
  define interval where "interval = waitSGDeletionPollInterval m"
  let ?fn = "deleteCondition m ctx' req"
  let ?first = "[DeleteSecurityGroupCall 0 req]"
  have del: "Delete m onTie ctx sdkSG = PollImmediateUntil onTie interval ?fn (doneAt ctx')"
    by (simp add: Delete_def req_def ctx'_def interval_def Let_def)
  from blocked obtain msg where
    "DeleteSecurityGroupWithContext (ec2Client m) [] 0 (Err ctx' 0) req
       = Some (AwsError ''DependencyViolation'' msg)"
    unfolding req_def by blast
  then have fn: "?fn 0 [] = ((False, None), ?first)"
    using deleteCondition_blocked [of m "[]" 0 ctx' req msg] by simp
  show ?thesis
  proof (cases "doneAt ctx' \<le> 0")
    case True
    have "doneAt ctx' \<le> interval"
      using True pos by (simp add: interval_def)
    with True fn show ?thesis
      unfolding del ctx'_def [symmetric] interval_def [symmetric]
      by (simp add: PollImmediateUntil_def)
  next
    case False
    then have le: "0 \<le> doneAt ctx'" by simp
    have eq: "Delete m onTie ctx sdkSG = WaitFor onTie interval ?fn (doneAt ctx') 0 ?first"
      using False fn by (simp add: del PollImmediateUntil_def)
    from pos have ipos: "0 < interval" by (simp add: interval_def)
    from WaitFor_blocked [of m req interval 0 "doneAt ctx'" onTie ctx' ?first, OF _ ipos le] blocked
    show ?thesis
      unfolding eq ctx'_def [symmetric] interval_def [symmetric] req_def [symmetric]
      using False by (simp add: req_def)
  qed
qed

lemma Delete_calls:
  "\<exists>calls. fst (snd (Delete m onTie ctx sdkSG))
       = DeleteSecurityGroupCall 0 \<lparr>GroupId = SecurityGroupID sdkSG\<rparr> # calls
     \<and> (\<forall>ev \<in> set calls. \<exists>t. ev = DeleteSecurityGroupCall t \<lparr>GroupId = SecurityGroupID sdkSG\<rparr>
           \<and> 0 < t \<and> t \<le> doneAt (WithTimeout ctx (waitSGDeletionTimeout m)))
     \<and> 0 \<le> snd (snd (Delete m onTie ctx sdkSG))
     \<and> snd (snd (Delete m onTie ctx sdkSG)) \<le> max 0 (doneAt (WithTimeout ctx (waitSGDeletionTimeout m)))"
proof -
  define req where "req = \<lparr>GroupId = SecurityGroupID sdkSG\<rparr>"
  define ctx' where "ctx' = WithTimeout ctx (waitSGDeletionTimeout m)"
  define interval where "interval = waitSGDeletionPollInterval m"
  let ?fn = "deleteCondition m ctx' req"
  let ?first = "[DeleteSecurityGroupCall 0 req]"
  have del: "Delete m onTie ctx sdkSG = PollImmediateUntil onTie interval ?fn (doneAt ctx')"
    by (simp add: Delete_def req_def ctx'_def interval_def Let_def)
  obtain r hist where fn: "?fn 0 [] = (r, hist)"
    by (cases "?fn 0 []")
  have hist: "hist = ?first"
    using fn deleteCondition_hist [of m ctx' req 0 "[]"] by simp
  show ?thesis
  proof (cases "snd r = None \<and> \<not> fst r \<and> 0 < doneAt ctx'")
    case False
    with fn hist show ?thesis
      unfolding del ctx'_def [symmetric] req_def [symmetric]
      by (auto simp: PollImmediateUntil_def split: option.split)
  next
    case True
    then have eq: "Delete m onTie ctx sdkSG = WaitFor onTie interval ?fn (doneAt ctx') 0 ?first"
      using fn hist by (simp add: del PollImmediateUntil_def)
    from True have le: "0 \<le> doneAt ctx'" by simp
    from WaitFor_calls [OF le, of onTie interval m ctx' req ?first] True
    show ?thesis
      unfolding eq ctx'_def [symmetric] req_def [symmetric]
      by auto
  qed
qed

lemma blockedEC2_blocked:
  "\<forall>hist now st. \<exists>msg.
      DeleteSecurityGroupWithContext (ec2Client (exampleManager blockedEC2)) hist now st req
        = Some (AwsError ''DependencyViolation'' msg)"
  by (simp add: exampleManager_simps blockedEC2_def)

text \<open>
  C3.  Each attempt of \<^verbatim>\<open>Delete\<close> is classified by the answer of its delete-call.
  Success ends the loop with nil.  An AWS error with code \<^verbatim>\<open>DependencyViolation\<close>
  lets the loop go on: after the first attempt unless the context is already done, and
  after a later attempt with the next delete-call exactly one poll interval later, as
  long as that instant lies before the end of the context.  Any other error ends the loop
  at once with that error; no further call is made.  The first conjunct is the immediate
  attempt at instant 0, the second an attempt at a tick of the ticker: a tick before the
  end of the context, or the tick at the very instant the context ends when the
  \<^verbatim>\<open>select\<close> serves the tick.
\<close>

theorem delete_step_classification:
  "(let req = \<lparr>GroupId = SecurityGroupID sdkSG\<rparr>;
        ctx' = WithTimeout ctx (waitSGDeletionTimeout m);
        fn = deleteCondition m ctx' req;
        interval = waitSGDeletionPollInterval m;
        first = [DeleteSecurityGroupCall 0 req];
        next = hist @ [DeleteSecurityGroupCall (now + interval) req]
    in (case DeleteSecurityGroupWithContext (ec2Client m) [] 0 (Err ctx' 0) req of
          None \<Rightarrow> Delete m onTie ctx sdkSG = (None, first, 0)
        | Some err \<Rightarrow>
            if \<exists>msg. err = AwsError ''DependencyViolation'' msg
            then Delete m onTie ctx sdkSG =
                   (if doneAt ctx' \<le> 0 then (Some ErrWaitTimeout, first, 0)
                    else WaitFor onTie interval fn (doneAt ctx') 0 first)
            else Delete m onTie ctx sdkSG = (Some err, first, 0))
     \<and> (0 < interval
          \<and> (now + interval < doneAt ctx' \<or> now + interval = doneAt ctx' \<and> onTie = Tick) \<longrightarrow>
          (case DeleteSecurityGroupWithContext (ec2Client m) hist (now + interval)
                  (Err ctx' (now + interval)) req of
             None \<Rightarrow> WaitFor onTie interval fn (doneAt ctx') now hist = (None, next, now + interval)
           | Some err \<Rightarrow>
               if \<exists>msg. err = AwsError ''DependencyViolation'' msg
               then WaitFor onTie interval fn (doneAt ctx') now hist
                      = WaitFor onTie interval fn (doneAt ctx') (now + interval) next
                    \<and> (now + interval + interval < doneAt ctx' \<longrightarrow>
                         (\<exists>rest. fst (snd (WaitFor onTie interval fn (doneAt ctx') now hist))
                            = next @ DeleteSecurityGroupCall (now + interval + interval) req # rest))
               else WaitFor onTie interval fn (doneAt ctx') now hist = (Some err, next, now + interval))))"
proof -
  define req where "req = \<lparr>GroupId = SecurityGroupID sdkSG\<rparr>"
  define ctx' where "ctx' = WithTimeout ctx (waitSGDeletionTimeout m)"
  define interval where "interval = waitSGDeletionPollInterval m"
  let ?fn = "deleteCondition m ctx' req"
  let ?first = "[DeleteSecurityGroupCall 0 req]"
  let ?next = "hist @ [DeleteSecurityGroupCall (now + interval) req]"
  have del: "Delete m onTie ctx sdkSG = PollImmediateUntil onTie interval ?fn (doneAt ctx')"
    by (simp add: Delete_def req_def ctx'_def interval_def Let_def)
  have A: "(case DeleteSecurityGroupWithContext (ec2Client m) [] 0 (Err ctx' 0) req of
          None \<Rightarrow> Delete m onTie ctx sdkSG = (None, ?first, 0)
        | Some err \<Rightarrow>
            if \<exists>msg. err = AwsError ''DependencyViolation'' msg
            then Delete m onTie ctx sdkSG =
                   (if doneAt ctx' \<le> 0 then (Some ErrWaitTimeout, ?first, 0)
                    else WaitFor onTie interval ?fn (doneAt ctx') 0 ?first)
            else Delete m onTie ctx sdkSG = (Some err, ?first, 0))"
  proof (cases "DeleteSecurityGroupWithContext (ec2Client m) [] 0 (Err ctx' 0) req")
    case None
    then show ?thesis
      by (simp add: del PollImmediateUntil_def deleteCondition_ok)
  next
    case (Some err)
    show ?thesis
    proof (cases "\<exists>msg. err = AwsError ''DependencyViolation'' msg")
      case True
      then obtain msg where "err = AwsError ''DependencyViolation'' msg" ..
      with Some show ?thesis
        by (simp add: del PollImmediateUntil_def deleteCondition_blocked)
    next
      case False
      with Some show ?thesis
        by (simp add: del PollImmediateUntil_def deleteCondition_failed)
    qed
  qed
  have B: "(case DeleteSecurityGroupWithContext (ec2Client m) hist (now + interval)
                  (Err ctx' (now + interval)) req of
             None \<Rightarrow> WaitFor onTie interval ?fn (doneAt ctx') now hist = (None, ?next, now + interval)
           | Some err \<Rightarrow>
               if \<exists>msg. err = AwsError ''DependencyViolation'' msg
               then WaitFor onTie interval ?fn (doneAt ctx') now hist
                      = WaitFor onTie interval ?fn (doneAt ctx') (now + interval) ?next
                    \<and> (now + interval + interval < doneAt ctx' \<longrightarrow>
                         (\<exists>rest. fst (snd (WaitFor onTie interval ?fn (doneAt ctx') now hist))
                            = ?next @ DeleteSecurityGroupCall (now + interval + interval) req # rest))
               else WaitFor onTie interval ?fn (doneAt ctx') now hist = (Some err, ?next, now + interval))"
    if pos: "0 < interval"
      and tick: "now + interval < doneAt ctx' \<or> now + interval = doneAt ctx' \<and> onTie = Tick"
  proof -
    from pos tick have unfold: "WaitFor onTie interval ?fn (doneAt ctx') now hist =
        (case ?fn (now + interval) hist of
           (r, hist') \<Rightarrow>
             (case snd r of
                Some err \<Rightarrow> (Some err, hist', now + interval)
              | None \<Rightarrow>
                  if fst r then (None, hist', now + interval)
                  else WaitFor onTie interval ?fn (doneAt ctx') (now + interval) hist'))"
      by (auto simp: WaitFor.simps [of onTie interval ?fn "doneAt ctx'" now hist])
    show ?thesis
    proof (cases "DeleteSecurityGroupWithContext (ec2Client m) hist (now + interval)
                  (Err ctx' (now + interval)) req")
      case None
      then show ?thesis
        by (simp add: unfold deleteCondition_ok)
    next
      case (Some err)
      show ?thesis
      proof (cases "\<exists>msg. err = AwsError ''DependencyViolation'' msg")
        case True
        then obtain msg where "err = AwsError ''DependencyViolation'' msg" ..
        with Some have eq: "WaitFor onTie interval ?fn (doneAt ctx') now hist
                      = WaitFor onTie interval ?fn (doneAt ctx') (now + interval) ?next"
          by (simp add: unfold deleteCondition_blocked)
        have "\<exists>rest. fst (snd (WaitFor onTie interval ?fn (doneAt ctx') now hist))
                = ?next @ DeleteSecurityGroupCall (now + interval + interval) req # rest"
          if "now + interval + interval < doneAt ctx'"
          using WaitFor_next_call [OF pos that, of onTie m ctx' req ?next] eq by simp
        with Some True eq show ?thesis by simp
      next
        case False
        with Some show ?thesis
          by (simp add: unfold deleteCondition_failed)
      qed
    qed
  qed
  from A B show ?thesis
    unfolding Let_def req_def ctx'_def interval_def by blast
qed

theorem delete_step_classification_witness:
  "\<forall>onTie. Delete (exampleManager (exampleEC2 2)) onTie None exampleInfo
     = (None,
        [DeleteSecurityGroupCall 0 \<lparr>GroupId = ''sg-9''\<rparr>,
         DeleteSecurityGroupCall 2000000000 \<lparr>GroupId = ''sg-9''\<rparr>,
         DeleteSecurityGroupCall 4000000000 \<lparr>GroupId = ''sg-9''\<rparr>],
        4000000000)"
proof
  fix onTie
  show "Delete (exampleManager (exampleEC2 2)) onTie None exampleInfo
     = (None,
        [DeleteSecurityGroupCall 0 \<lparr>GroupId = ''sg-9''\<rparr>,
         DeleteSecurityGroupCall 2000000000 \<lparr>GroupId = ''sg-9''\<rparr>,
         DeleteSecurityGroupCall 4000000000 \<lparr>GroupId = ''sg-9''\<rparr>],
        4000000000)"
    using
      delete_step_classification [where sdkSG = exampleInfo and ctx = None
        and m = "exampleManager (exampleEC2 2)" and onTie = onTie
        and hist = "[DeleteSecurityGroupCall 0 \<lparr>GroupId = ''sg-9''\<rparr>]" and now = 0]
      delete_step_classification [where sdkSG = exampleInfo and ctx = None
        and m = "exampleManager (exampleEC2 2)" and onTie = onTie
        and hist = "[DeleteSecurityGroupCall 0 \<lparr>GroupId = ''sg-9''\<rparr>,
                     DeleteSecurityGroupCall 2000000000 \<lparr>GroupId = ''sg-9''\<rparr>]"
        and now = 2000000000]
    by (simp add: Let_def exampleManager_simps exampleEC2_def exampleInfo_def WithTimeout_def Err_def)
qed

text \<open>
  C4.  When every delete-call is refused with the dependency violation, the poll
  interval is positive and the caller's context is not done before the deadline,
  \<^verbatim>\<open>Delete\<close> returns \<^verbatim>\<open>wait.ErrWaitTimeout\<close> at the instant the deadline, counted
  from entry, elapses (at once, when the deadline is not positive), after at least
  \<open>deadline div interval\<close> delete-calls, the first at instant 0 and none after the
  deadline.  This holds whichever way the \<^verbatim>\<open>select\<close> serves a tick that falls on the
  deadline.
\<close>

theorem blocked_delete_times_out:
  assumes blocked: "\<forall>hist now st. \<exists>msg.
      DeleteSecurityGroupWithContext (ec2Client m) hist now st \<lparr>GroupId = SecurityGroupID sdkSG\<rparr>
        = Some (AwsError ''DependencyViolation'' msg)"
    and pos: "0 < waitSGDeletionPollInterval m"
    and alive: "\<forall>parent. ctx = Some parent \<longrightarrow> waitSGDeletionTimeout m \<le> doneAt parent"
  shows "fst (Delete m onTie ctx sdkSG) = Some ErrWaitTimeout
    \<and> snd (snd (Delete m onTie ctx sdkSG)) = max 0 (waitSGDeletionTimeout m)
    \<and> waitSGDeletionTimeout m div waitSGDeletionPollInterval m
        \<le> int (length (fst (snd (Delete m onTie ctx sdkSG))))
    \<and> (\<forall>ev \<in> set (fst (snd (Delete m onTie ctx sdkSG))).
          \<exists>t. ev = DeleteSecurityGroupCall t \<lparr>GroupId = SecurityGroupID sdkSG\<rparr>
            \<and> (t = 0 \<or> 0 < t \<and> t \<le> waitSGDeletionTimeout m))"
proof -
  have stop: "doneAt (WithTimeout ctx (waitSGDeletionTimeout m)) = waitSGDeletionTimeout m"
  proof (cases ctx)
    case None
    then show ?thesis by (simp add: WithTimeout_def)
  next
    case (Some parent)
    with alive have "waitSGDeletionTimeout m \<le> doneAt parent" by simp
    with Some show ?thesis by (simp add: WithTimeout_def)
  qed
  from Delete_blocked [OF blocked pos, of onTie ctx]
  have res: "fst (Delete m onTie ctx sdkSG) = Some ErrWaitTimeout"
    and at: "snd (snd (Delete m onTie ctx sdkSG)) = max 0 (waitSGDeletionTimeout m)"
    and le: "waitSGDeletionTimeout m
        \<le> int (length (fst (snd (Delete m onTie ctx sdkSG)))) * waitSGDeletionPollInterval m"
    by (simp_all add: stop)
  have "waitSGDeletionTimeout m div waitSGDeletionPollInterval m
      \<le> (int (length (fst (snd (Delete m onTie ctx sdkSG)))) * waitSGDeletionPollInterval m)
          div waitSGDeletionPollInterval m"
    by (rule zdiv_mono1 [OF le pos])
  with pos have count: "waitSGDeletionTimeout m div waitSGDeletionPollInterval m
        \<le> int (length (fst (snd (Delete m onTie ctx sdkSG))))"
    by simp
  from Delete_calls [of m onTie ctx sdkSG]
  have calls: "\<forall>ev \<in> set (fst (snd (Delete m onTie ctx sdkSG))).
          \<exists>t. ev = DeleteSecurityGroupCall t \<lparr>GroupId = SecurityGroupID sdkSG\<rparr>
            \<and> (t = 0 \<or> 0 < t \<and> t \<le> waitSGDeletionTimeout m)"
    by (auto simp: stop)
  from res at count calls show ?thesis by blast
qed

text \<open>
  The instance: the defaults of 2 seconds and 2 minutes under a caller's context that
  ends after 10 minutes; and the same client with an interval of 2 seconds and a deadline
  of 6 seconds, where the calls are made at 0, 2 and 4 seconds, and at 6 seconds too when
  the tick on the deadline is served.
\<close>

theorem blocked_delete_times_out_witness:
  "(\<forall>onTie.
      fst (Delete (exampleManager blockedEC2) onTie
             (Some \<lparr>doneAt = 600000000000, ctxError = Canceled\<rparr>) exampleInfo) = Some ErrWaitTimeout
      \<and> snd (snd (Delete (exampleManager blockedEC2) onTie
             (Some \<lparr>doneAt = 600000000000, ctxError = Canceled\<rparr>) exampleInfo)) = 120000000000
      \<and> 60 \<le> int (length (fst (snd (Delete (exampleManager blockedEC2) onTie
             (Some \<lparr>doneAt = 600000000000, ctxError = Canceled\<rparr>) exampleInfo)))))
   \<and> Delete ((exampleManager blockedEC2)
               \<lparr>waitSGDeletionPollInterval := 2000000000, waitSGDeletionTimeout := 6000000000\<rparr>)
        Stop None exampleInfo
      = (Some ErrWaitTimeout,
         [DeleteSecurityGroupCall 0 \<lparr>GroupId = ''sg-9''\<rparr>,
          DeleteSecurityGroupCall 2000000000 \<lparr>GroupId = ''sg-9''\<rparr>,
          DeleteSecurityGroupCall 4000000000 \<lparr>GroupId = ''sg-9''\<rparr>],
         6000000000)
   \<and> Delete ((exampleManager blockedEC2)
               \<lparr>waitSGDeletionPollInterval := 2000000000, waitSGDeletionTimeout := 6000000000\<rparr>)
        Tick None exampleInfo
      = (Some ErrWaitTimeout,
         [DeleteSecurityGroupCall 0 \<lparr>GroupId = ''sg-9''\<rparr>,
          DeleteSecurityGroupCall 2000000000 \<lparr>GroupId = ''sg-9''\<rparr>,
          DeleteSecurityGroupCall 4000000000 \<lparr>GroupId = ''sg-9''\<rparr>,
          DeleteSecurityGroupCall 6000000000 \<lparr>GroupId = ''sg-9''\<rparr>],
         6000000000)"
proof (intro conjI allI)
  fix onTie
  let ?ctx = "Some \<lparr>doneAt = 600000000000, ctxError = Canceled\<rparr>"
  have alive: "\<forall>parent. ?ctx = Some parent \<longrightarrow>
      waitSGDeletionTimeout (exampleManager blockedEC2) \<le> doneAt parent"
    by (simp add: exampleManager_simps)
  have pos: "0 < waitSGDeletionPollInterval (exampleManager blockedEC2)"
    by (simp add: exampleManager_simps)
  note run = blocked_delete_times_out [where m = "exampleManager blockedEC2" and sdkSG = exampleInfo
      and ctx = ?ctx and onTie = onTie, OF blockedEC2_blocked pos alive]
  from run show "fst (Delete (exampleManager blockedEC2) onTie ?ctx exampleInfo) = Some ErrWaitTimeout"
    by simp
  from run show "snd (snd (Delete (exampleManager blockedEC2) onTie ?ctx exampleInfo)) = 120000000000"
    by (simp add: exampleManager_simps)
  from run show "60 \<le> int (length (fst (snd (Delete (exampleManager blockedEC2) onTie ?ctx exampleInfo))))"
    by (simp add: exampleManager_simps)
next
  show "Delete ((exampleManager blockedEC2)
               \<lparr>waitSGDeletionPollInterval := 2000000000, waitSGDeletionTimeout := 6000000000\<rparr>)
        Stop None exampleInfo
      = (Some ErrWaitTimeout,
         [DeleteSecurityGroupCall 0 \<lparr>GroupId = ''sg-9''\<rparr>,
          DeleteSecurityGroupCall 2000000000 \<lparr>GroupId = ''sg-9''\<rparr>,
          DeleteSecurityGroupCall 4000000000 \<lparr>GroupId = ''sg-9''\<rparr>],
         6000000000)"
    by (simp add: Delete_def Let_def WithTimeout_def exampleManager_simps PollImmediateUntil_def
          deleteCondition_def blockedEC2_def exampleInfo_def WaitFor.simps)
next
  show "Delete ((exampleManager blockedEC2)
               \<lparr>waitSGDeletionPollInterval := 2000000000, waitSGDeletionTimeout := 6000000000\<rparr>)
        Tick None exampleInfo
      = (Some ErrWaitTimeout,
         [DeleteSecurityGroupCall 0 \<lparr>GroupId = ''sg-9''\<rparr>,
          DeleteSecurityGroupCall 2000000000 \<lparr>GroupId = ''sg-9''\<rparr>,
          DeleteSecurityGroupCall 4000000000 \<lparr>GroupId = ''sg-9''\<rparr>,
          DeleteSecurityGroupCall 6000000000 \<lparr>GroupId = ''sg-9''\<rparr>],
         6000000000)"
    by (simp add: Delete_def Let_def WithTimeout_def exampleManager_simps PollImmediateUntil_def
          deleteCondition_def blockedEC2_def exampleInfo_def WaitFor.simps)
qed

text \<open>
  C2, as amended.  \<^verbatim>\<open>Delete\<close> builds no cancellation error of its own.  When the
  caller's context is already cancelled on entry, \<^verbatim>\<open>Delete\<close> still makes its
  immediate delete-call, under the cancelled context, and returns at once: nil when the
  call succeeds, \<^verbatim>\<open>wait.ErrWaitTimeout\<close> when the call is refused with the dependency
  violation, and otherwise the error of the call.  When the context is cancelled at a
  later instant \<open>c\<close>, not after the deadline, \<^verbatim>\<open>Delete\<close> returns no later than \<open>c\<close>
  and makes no delete-call after \<open>c\<close>; when every delete-call is refused with the
  dependency violation it returns at \<open>c\<close> with \<^verbatim>\<open>wait.ErrWaitTimeout\<close>, which is the
  error it returns too when the deadline elapses without a cancellation.
\<close>

theorem cancellation_reported_as_timeout:
  "(c \<le> 0 \<and> c \<le> waitSGDeletionTimeout m \<longrightarrow>
      Delete m onTie (Some \<lparr>doneAt = c, ctxError = Canceled\<rparr>) sdkSG =
        (case DeleteSecurityGroupWithContext (ec2Client m) [] 0 (Some Canceled)
                \<lparr>GroupId = SecurityGroupID sdkSG\<rparr> of
           None \<Rightarrow> (None, [DeleteSecurityGroupCall 0 \<lparr>GroupId = SecurityGroupID sdkSG\<rparr>], 0)
         | Some err \<Rightarrow>
             if \<exists>msg. err = AwsError ''DependencyViolation'' msg
             then (Some ErrWaitTimeout, [DeleteSecurityGroupCall 0 \<lparr>GroupId = SecurityGroupID sdkSG\<rparr>], 0)
             else (Some err, [DeleteSecurityGroupCall 0 \<lparr>GroupId = SecurityGroupID sdkSG\<rparr>], 0)))
   \<and> (0 < c \<and> c \<le> waitSGDeletionTimeout m \<longrightarrow>
        snd (snd (Delete m onTie (Some \<lparr>doneAt = c, ctxError = Canceled\<rparr>) sdkSG)) \<le> c
        \<and> (\<forall>ev \<in> set (fst (snd (Delete m onTie (Some \<lparr>doneAt = c, ctxError = Canceled\<rparr>) sdkSG))).
              \<exists>t. ev = DeleteSecurityGroupCall t \<lparr>GroupId = SecurityGroupID sdkSG\<rparr> \<and> 0 \<le> t \<and> t \<le> c)
        \<and> ((\<forall>hist now st. \<exists>msg.
               DeleteSecurityGroupWithContext (ec2Client m) hist now st \<lparr>GroupId = SecurityGroupID sdkSG\<rparr>
                 = Some (AwsError ''DependencyViolation'' msg))
             \<and> 0 < waitSGDeletionPollInterval m \<longrightarrow>
               fst (Delete m onTie (Some \<lparr>doneAt = c, ctxError = Canceled\<rparr>) sdkSG) = Some ErrWaitTimeout
               \<and> snd (snd (Delete m onTie (Some \<lparr>doneAt = c, ctxError = Canceled\<rparr>) sdkSG)) = c
               \<and> fst (Delete m onTie None sdkSG) = Some ErrWaitTimeout))"
proof (intro conjI impI)
  let ?ctx = "Some \<lparr>doneAt = c, ctxError = Canceled\<rparr>"
  let ?req = "\<lparr>GroupId = SecurityGroupID sdkSG\<rparr>"
  let ?first = "[DeleteSecurityGroupCall 0 ?req]"
  assume entry: "c \<le> 0 \<and> c \<le> waitSGDeletionTimeout m"
  then have ctx': "WithTimeout ?ctx (waitSGDeletionTimeout m) = \<lparr>doneAt = c, ctxError = Canceled\<rparr>"
    by (simp add: WithTimeout_def)
  from entry have seen: "Err \<lparr>doneAt = c, ctxError = Canceled\<rparr> 0 = Some Canceled"
    by (simp add: Err_def)
  show "Delete m onTie ?ctx sdkSG =
        (case DeleteSecurityGroupWithContext (ec2Client m) [] 0 (Some Canceled) ?req of
           None \<Rightarrow> (None, ?first, 0)
         | Some err \<Rightarrow>
             if \<exists>msg. err = AwsError ''DependencyViolation'' msg
             then (Some ErrWaitTimeout, ?first, 0)
             else (Some err, ?first, 0))"
  proof (cases "DeleteSecurityGroupWithContext (ec2Client m) [] 0 (Some Canceled) ?req")
    case None
    with entry show ?thesis
      by (simp add: Delete_def Let_def ctx' PollImmediateUntil_def deleteCondition_def seen)
  next
    case (Some err)
    show ?thesis
    proof (cases "\<exists>msg. err = AwsError ''DependencyViolation'' msg")
      case True
      then obtain msg where "err = AwsError ''DependencyViolation'' msg" ..
      with Some entry show ?thesis
        by (simp add: Delete_def Let_def ctx' PollImmediateUntil_def deleteCondition_def seen)
    next
      case False
      with Some have "deleteCondition m \<lparr>doneAt = c, ctxError = Canceled\<rparr> ?req 0 []
          = ((False, Some err), ?first)"
        using deleteCondition_failed [of m "[]" 0 "\<lparr>doneAt = c, ctxError = Canceled\<rparr>" ?req err]
        by (simp add: seen)
      with Some False show ?thesis
        by (simp add: Delete_def Let_def ctx' PollImmediateUntil_def)
    qed
  qed
next
  let ?ctx = "Some \<lparr>doneAt = c, ctxError = Canceled\<rparr>"
  let ?req = "\<lparr>GroupId = SecurityGroupID sdkSG\<rparr>"
  assume later: "0 < c \<and> c \<le> waitSGDeletionTimeout m"
  then have stop: "doneAt (WithTimeout ?ctx (waitSGDeletionTimeout m)) = c"
    by (simp add: WithTimeout_def)
  from Delete_calls [of m onTie ?ctx sdkSG] later
  obtain calls where made: "fst (snd (Delete m onTie ?ctx sdkSG)) = DeleteSecurityGroupCall 0 ?req # calls"
    and after: "\<forall>ev \<in> set calls. \<exists>t. ev = DeleteSecurityGroupCall t ?req \<and> 0 < t \<and> t \<le> c"
    and by_c: "snd (snd (Delete m onTie ?ctx sdkSG)) \<le> c"
    by (auto simp: stop)
  show "snd (snd (Delete m onTie ?ctx sdkSG)) \<le> c"
    by (rule by_c)
  show "\<forall>ev \<in> set (fst (snd (Delete m onTie ?ctx sdkSG))).
          \<exists>t. ev = DeleteSecurityGroupCall t ?req \<and> 0 \<le> t \<and> t \<le> c"
  proof
    fix ev
    assume "ev \<in> set (fst (snd (Delete m onTie ?ctx sdkSG)))"
    then consider "ev = DeleteSecurityGroupCall 0 ?req" | "ev \<in> set calls"
      using made by auto
    then show "\<exists>t. ev = DeleteSecurityGroupCall t ?req \<and> 0 \<le> t \<and> t \<le> c"
    proof cases
      case 1
      with later show ?thesis by simp
    next
      case 2
      with after obtain t where "ev = DeleteSecurityGroupCall t ?req" "0 < t" "t \<le> c"
        by blast
      then show ?thesis by simp
    qed
  qed
  assume refused: "(\<forall>hist now st. \<exists>msg.
               DeleteSecurityGroupWithContext (ec2Client m) hist now st ?req
                 = Some (AwsError ''DependencyViolation'' msg))
             \<and> 0 < waitSGDeletionPollInterval m"
  then have blocked: "\<forall>hist now st. \<exists>msg.
               DeleteSecurityGroupWithContext (ec2Client m) hist now st ?req
                 = Some (AwsError ''DependencyViolation'' msg)"
    and pos: "0 < waitSGDeletionPollInterval m"
    by simp_all
  from Delete_blocked [OF blocked pos, of onTie ?ctx] later
  show "fst (Delete m onTie ?ctx sdkSG) = Some ErrWaitTimeout"
    and "snd (snd (Delete m onTie ?ctx sdkSG)) = c"
    by (simp_all add: stop)
  from Delete_blocked [OF blocked pos, of onTie None]
  show "fst (Delete m onTie None sdkSG) = Some ErrWaitTimeout"
    by simp
qed

text \<open>
  The instances: a context already cancelled on entry, under a client that answers a
  call under a done context with a \<^verbatim>\<open>RequestCanceled\<close> error; a cancellation after
  1 second with every call refused; and a cancellation after 2 seconds, on a tick that is
  served, under the first client, where the call at 2 seconds is made under the
  cancelled context.
\<close>

theorem cancellation_reported_as_timeout_witness:
  "Delete (exampleManager contextAwareEC2) Stop (Some \<lparr>doneAt = 0, ctxError = Canceled\<rparr>) exampleInfo
     = (Some (AwsError ''RequestCanceled'' ''context canceled''),
        [DeleteSecurityGroupCall 0 \<lparr>GroupId = ''sg-9''\<rparr>], 0)
   \<and> (0::int) < 1000000000
   \<and> 1000000000 \<le> waitSGDeletionTimeout (exampleManager blockedEC2)
   \<and> fst (Delete (exampleManager blockedEC2) Tick (Some \<lparr>doneAt = 1000000000, ctxError = Canceled\<rparr>)
           exampleInfo) = Some ErrWaitTimeout
   \<and> snd (snd (Delete (exampleManager blockedEC2) Tick (Some \<lparr>doneAt = 1000000000, ctxError = Canceled\<rparr>)
           exampleInfo)) = 1000000000
   \<and> fst (Delete (exampleManager blockedEC2) Tick None exampleInfo) = Some ErrWaitTimeout
   \<and> Delete (exampleManager contextAwareEC2) Tick (Some \<lparr>doneAt = 2000000000, ctxError = Canceled\<rparr>)
        exampleInfo
     = (Some (AwsError ''RequestCanceled'' ''context canceled''),
        [DeleteSecurityGroupCall 0 \<lparr>GroupId = ''sg-9''\<rparr>,
         DeleteSecurityGroupCall 2000000000 \<lparr>GroupId = ''sg-9''\<rparr>], 2000000000)"
proof -
  have entry: "(0::int) \<le> 0 \<and> 0 \<le> waitSGDeletionTimeout (exampleManager contextAwareEC2)"
    by (simp add: exampleManager_simps)
  have first: "Delete (exampleManager contextAwareEC2) Stop (Some \<lparr>doneAt = 0, ctxError = Canceled\<rparr>)
        exampleInfo
     = (Some (AwsError ''RequestCanceled'' ''context canceled''),
        [DeleteSecurityGroupCall 0 \<lparr>GroupId = ''sg-9''\<rparr>], 0)"
    using cancellation_reported_as_timeout [where c = 0 and m = "exampleManager contextAwareEC2"
        and onTie = Stop and sdkSG = exampleInfo] entry
    by (simp add: exampleManager_simps contextAwareEC2_def exampleInfo_def)
  have after: "(0::int) < 1000000000"
    by simp
  have before: "1000000000 \<le> waitSGDeletionTimeout (exampleManager blockedEC2)"
    by (simp add: exampleManager_simps)
  have pos: "0 < waitSGDeletionPollInterval (exampleManager blockedEC2)"
    by (simp add: exampleManager_simps)
  from cancellation_reported_as_timeout [where c = 1000000000 and m = "exampleManager blockedEC2"
        and onTie = Tick and sdkSG = exampleInfo]
    blockedEC2_blocked [of "\<lparr>GroupId = SecurityGroupID exampleInfo\<rparr>"] pos after before
  have sleeping:
    "fst (Delete (exampleManager blockedEC2) Tick (Some \<lparr>doneAt = 1000000000, ctxError = Canceled\<rparr>)
           exampleInfo) = Some ErrWaitTimeout
     \<and> snd (snd (Delete (exampleManager blockedEC2) Tick (Some \<lparr>doneAt = 1000000000, ctxError = Canceled\<rparr>)
           exampleInfo)) = 1000000000
     \<and> fst (Delete (exampleManager blockedEC2) Tick None exampleInfo) = Some ErrWaitTimeout"
    by blast
  have on_tick: "Delete (exampleManager contextAwareEC2) Tick
        (Some \<lparr>doneAt = 2000000000, ctxError = Canceled\<rparr>) exampleInfo
     = (Some (AwsError ''RequestCanceled'' ''context canceled''),
        [DeleteSecurityGroupCall 0 \<lparr>GroupId = ''sg-9''\<rparr>,
         DeleteSecurityGroupCall 2000000000 \<lparr>GroupId = ''sg-9''\<rparr>], 2000000000)"
    by (simp add: Delete_def Let_def WithTimeout_def Err_def exampleManager_simps PollImmediateUntil_def
          deleteCondition_def contextAwareEC2_def exampleInfo_def WaitFor.simps)
  from first after before sleeping on_tick show ?thesis by blast
qed

text \<open>
  C2 as stated fails: with a deadline of 2 minutes, a poll interval of 2 seconds and every
  delete-call refused, a cancellation after 1 second makes \<^verbatim>\<open>Delete\<close> return
  \<^verbatim>\<open>wait.ErrWaitTimeout\<close> at that instant, which is the error it returns when the
  deadline elapses without any cancellation.  No tick falls on the instant of the
  cancellation, so the choice of the \<^verbatim>\<open>select\<close> plays no part.
\<close>

theorem cancelled_delete_returns_timeout_error:
  "Delete (exampleManager blockedEC2) Tick (Some \<lparr>doneAt = 1000000000, ctxError = Canceled\<rparr>) exampleInfo
     = (Some ErrWaitTimeout, [DeleteSecurityGroupCall 0 \<lparr>GroupId = ''sg-9''\<rparr>], 1000000000)
   \<and> Delete (exampleManager blockedEC2) Stop (Some \<lparr>doneAt = 1000000000, ctxError = Canceled\<rparr>) exampleInfo
     = (Some ErrWaitTimeout, [DeleteSecurityGroupCall 0 \<lparr>GroupId = ''sg-9''\<rparr>], 1000000000)
   \<and> fst (Delete (exampleManager blockedEC2) Tick None exampleInfo) = Some ErrWaitTimeout
   \<and> fst (Delete (exampleManager blockedEC2) Stop None exampleInfo) = Some ErrWaitTimeout"
proof (intro conjI)
  show "Delete (exampleManager blockedEC2) Tick (Some \<lparr>doneAt = 1000000000, ctxError = Canceled\<rparr>)
      exampleInfo
     = (Some ErrWaitTimeout, [DeleteSecurityGroupCall 0 \<lparr>GroupId = ''sg-9''\<rparr>], 1000000000)"
    by (simp add: Delete_def Let_def WithTimeout_def exampleManager_simps PollImmediateUntil_def
          deleteCondition_def blockedEC2_def exampleInfo_def WaitFor.simps)
  show "Delete (exampleManager blockedEC2) Stop (Some \<lparr>doneAt = 1000000000, ctxError = Canceled\<rparr>)
      exampleInfo
     = (Some ErrWaitTimeout, [DeleteSecurityGroupCall 0 \<lparr>GroupId = ''sg-9''\<rparr>], 1000000000)"
    by (simp add: Delete_def Let_def WithTimeout_def exampleManager_simps PollImmediateUntil_def
          deleteCondition_def blockedEC2_def exampleInfo_def WaitFor.simps)
  have pos: "0 < waitSGDeletionPollInterval (exampleManager blockedEC2)"
    by (simp add: exampleManager_simps)
  show "fst (Delete (exampleManager blockedEC2) Tick None exampleInfo) = Some ErrWaitTimeout"
    using Delete_blocked [where m = "exampleManager blockedEC2" and sdkSG = exampleInfo
        and onTie = Tick and ctx = None, OF blockedEC2_blocked pos] by simp
  show "fst (Delete (exampleManager blockedEC2) Stop None exampleInfo) = Some ErrWaitTimeout"
    using Delete_blocked [where m = "exampleManager blockedEC2" and sdkSG = exampleInfo
        and onTie = Stop and ctx = None, OF blockedEC2_blocked pos] by simp
qed

section \<open>Properties of construction\<close>

text \<open>
  C9.  The poll interval defaults to 2 seconds, a value between a second and a minute,
  and the deadline to 2 minutes, a value between a minute and an hour; the constructor
  installs these two defaults.  Both are fields of the manager, so they can be
  overridden when a manager is constructed: for every choice of the collaborators, the
  VPC id, an interval and a deadline there is a manager that holds them, and there is a
  manager with an interval and a deadline other than the defaults whose \<^verbatim>\<open>Delete\<close>,
  with every delete-call refused, runs until its own deadline.
\<close>

theorem deletion_timing_defaults_and_override:
  "defaultWaitSGDeletionPollInterval = 2 * second
   \<and> defaultWaitSGDeletionTimeout = 2 * minute
   \<and> second \<le> defaultWaitSGDeletionPollInterval \<and> defaultWaitSGDeletionPollInterval < minute
   \<and> minute \<le> defaultWaitSGDeletionTimeout \<and> defaultWaitSGDeletionTimeout < 60 * minute
   \<and> waitSGDeletionPollInterval (NewDefaultSecurityGroupManager ec2C trackingP taggingM networkingR vpc)
       = defaultWaitSGDeletionPollInterval
   \<and> waitSGDeletionTimeout (NewDefaultSecurityGroupManager ec2C trackingP taggingM networkingR vpc)
       = defaultWaitSGDeletionTimeout
   \<and> (\<exists>m :: defaultSecurityGroupManager. ec2Client m = ec2C \<and> trackingProvider m = trackingP \<and> taggingManager m = taggingM
          \<and> networkingSGReconciler m = networkingR \<and> vpcID m = vpc
          \<and> waitSGDeletionPollInterval m = interval \<and> waitSGDeletionTimeout m = deadline)
   \<and> (\<exists>m. waitSGDeletionPollInterval m \<noteq> defaultWaitSGDeletionPollInterval
          \<and> waitSGDeletionTimeout m \<noteq> defaultWaitSGDeletionTimeout
          \<and> fst (Delete m onTie None sdkSG) = Some ErrWaitTimeout
          \<and> snd (snd (Delete m onTie None sdkSG)) = waitSGDeletionTimeout m)"
proof -
  let ?built = "NewDefaultSecurityGroupManager ec2C trackingP taggingM networkingR vpc"
  let ?set = "?built\<lparr>waitSGDeletionPollInterval := interval, waitSGDeletionTimeout := deadline\<rparr>"
  let ?quick = "(exampleManager blockedEC2)
      \<lparr>waitSGDeletionPollInterval := second, waitSGDeletionTimeout := 3 * second\<rparr>"
  have defaults: "defaultWaitSGDeletionPollInterval = 2 * second
      \<and> defaultWaitSGDeletionTimeout = 2 * minute
      \<and> second \<le> defaultWaitSGDeletionPollInterval \<and> defaultWaitSGDeletionPollInterval < minute
      \<and> minute \<le> defaultWaitSGDeletionTimeout \<and> defaultWaitSGDeletionTimeout < 60 * minute"
    by (simp add: defaultWaitSGDeletionPollInterval_def defaultWaitSGDeletionTimeout_def
          second_def minute_def)
  have built: "waitSGDeletionPollInterval ?built = defaultWaitSGDeletionPollInterval
      \<and> waitSGDeletionTimeout ?built = defaultWaitSGDeletionTimeout"
    by (simp add: NewDefaultSecurityGroupManager_def)
  have any: "\<exists>m :: defaultSecurityGroupManager. ec2Client m = ec2C \<and> trackingProvider m = trackingP \<and> taggingManager m = taggingM
          \<and> networkingSGReconciler m = networkingR \<and> vpcID m = vpc
          \<and> waitSGDeletionPollInterval m = interval \<and> waitSGDeletionTimeout m = deadline"
    by (rule exI [of _ ?set]) (simp add: NewDefaultSecurityGroupManager_def)
  have blocked: "\<forall>hist now st. \<exists>msg.
      DeleteSecurityGroupWithContext (ec2Client ?quick) hist now st \<lparr>GroupId = SecurityGroupID sdkSG\<rparr>
        = Some (AwsError ''DependencyViolation'' msg)"
    by (simp add: exampleManager_simps blockedEC2_def)
  have pos: "0 < waitSGDeletionPollInterval ?quick"
    by (simp add: second_def)
  from Delete_blocked [OF blocked pos, of onTie None]
  have quick: "waitSGDeletionPollInterval ?quick \<noteq> defaultWaitSGDeletionPollInterval
          \<and> waitSGDeletionTimeout ?quick \<noteq> defaultWaitSGDeletionTimeout
          \<and> fst (Delete ?quick onTie None sdkSG) = Some ErrWaitTimeout
          \<and> snd (snd (Delete ?quick onTie None sdkSG)) = waitSGDeletionTimeout ?quick"
    by (simp add: WithTimeout_def defaultWaitSGDeletionPollInterval_def defaultWaitSGDeletionTimeout_def
          second_def minute_def)
  have other: "\<exists>m. waitSGDeletionPollInterval m \<noteq> defaultWaitSGDeletionPollInterval
          \<and> waitSGDeletionTimeout m \<noteq> defaultWaitSGDeletionTimeout
          \<and> fst (Delete m onTie None sdkSG) = Some ErrWaitTimeout
          \<and> snd (snd (Delete m onTie None sdkSG)) = waitSGDeletionTimeout m"
    by (rule exI [of _ ?quick]) (rule quick)
  from defaults built any other show ?thesis by blast
qed

end
